theory Spec2Isabelle
  imports Main
begin

section \<open>Errors\<close>

text \<open>What the scripts throw, and what the platform throws inside them.\<close>

datatype http_method = GET | POST | PUT | PATCH

datatype error =
    TransportError string                \<comment> \<open>the rejection of \<^verbatim>\<open>fetch\<close> or of the request\<close>
  | HttpError http_method string nat string
      \<comment> \<open>\<^verbatim>\<open>api\<close>: method, path, status and response text\<close>
  | ApiError nat string                  \<comment> \<open>\<^verbatim>\<open>apiRequest\<close>: \<^verbatim>\<open>API Error status: data\<close>\<close>
  | SyntaxError                          \<comment> \<open>\<^verbatim>\<open>res.json()\<close> on a body that is not JSON\<close>
  | TypeError                            \<comment> \<open>a value that cannot be converted to a string; \<^verbatim>\<open>new URL\<close> on an invalid URL\<close>
  | URIError                             \<comment> \<open>\<^verbatim>\<open>encodeURIComponent\<close> on an unpaired surrogate\<close>
  | MissingName                          \<comment> \<open>\<^verbatim>\<open>Report JSON missing required field: name\<close>\<close>
  | Unreadable                           \<comment> \<open>\<^verbatim>\<open>readdirSync\<close>, \<^verbatim>\<open>readFileSync\<close> or \<^verbatim>\<open>JSON.parse\<close> throws\<close>
  | AuthenticationFailed error           \<comment> \<open>\<^verbatim>\<open>Authentication failed: ...\<close>\<close>

section \<open>JavaScript values read from JSON\<close>

text \<open>
  The scripts handle what \<^verbatim>\<open>JSON.parse\<close> and \<^verbatim>\<open>res.json()\<close> return. An object is
  its list of properties in order. A number is carried as the text JavaScript prints for
  it (\<^verbatim>\<open>String(n)\<close>, so both zeros are \<^verbatim>\<open>0\<close>): the scripts never compute with numbers,
  they only test them for truth and paste them into URLs. \<^verbatim>\<open>undefined\<close> is not a JSON
  value; a property read returns a \<open>json option\<close> with \<open>None\<close> for it. Strings are
  sequences of bytes: UTF-8, where an unpaired surrogate, which a JavaScript string can
  hold and \<^verbatim>\<open>JSON.parse\<close> returns for an escape like \<^verbatim>\<open>\ud800\<close>, is the three bytes
  \<^verbatim>\<open>ED A0..BF 80..BF\<close> that the encoding gives its code point.
\<close>

datatype json =
    JNull
  | JBool bool
  | JNum string
  | JStr string
  | JArr "json list"
  | JObj "(string \<times> json) list"

type_synonym obj = "(string \<times> json) list"

text \<open>\<^verbatim>\<open>v.k\<close> for the property names the scripts read (\<^verbatim>\<open>name\<close>, \<^verbatim>\<open>id\<close>, \<^verbatim>\<open>list\<close>,
  \<^verbatim>\<open>token\<close>): only an object has them. On \<^verbatim>\<open>null\<close> a plain read throws a TypeError, which
  the callers below handle before they call \<open>get_prop\<close>; \<^verbatim>\<open>null?.k\<close> is \<^verbatim>\<open>undefined\<close>.\<close>

fun get_prop :: "json \<Rightarrow> string \<Rightarrow> json option" where
  "get_prop (JObj fs) k = map_of fs k"
| "get_prop _ k = None"

text \<open>
  The first UTF-16 code unit of a string that is not empty, as bytes: the first
  character when the encoding gives it one, two or three bytes, and the high surrogate
  of the first character when it gives it four.
\<close>

definition first_unit :: "string \<Rightarrow> string" where
  "first_unit s =
     (let n = map of_char s :: nat list in
      if n ! 0 < 0x80 then take 1 s
      else if n ! 0 < 0xE0 then take 2 s
      else if n ! 0 < 0xF0 then take 3 s
      else
        (let hs = 0xD800 + ((n ! 0 mod 8) * 256 + (n ! 1 mod 64) * 4 + (n ! 2 mod 64) div 16 - 64)
         in [CHR 0xED, char_of (0x80 + hs div 64 mod 64), char_of (0x80 + hs mod 64)]))"

text \<open>\<^verbatim>\<open>v?.[0]\<close> on a value that is neither \<^verbatim>\<open>null\<close> nor \<^verbatim>\<open>undefined\<close>.\<close>

fun index0 :: "json \<Rightarrow> json option" where
  "index0 (JArr []) = None"
| "index0 (JArr (x # xs)) = Some x"
| "index0 (JStr []) = None"
| "index0 (JStr (c # cs)) = Some (JStr (first_unit (c # cs)))"
| "index0 (JObj fs) = map_of fs ''0''"
| "index0 _ = None"

text \<open>Truthiness, as \<^verbatim>\<open>if (v)\<close>, \<^verbatim>\<open>!v\<close> and \<^verbatim>\<open>v || w\<close> test it.\<close>

fun truthy :: "json \<Rightarrow> bool" where
  "truthy JNull = False"
| "truthy (JBool b) = b"
| "truthy (JNum s) = (s \<noteq> ''0'')"
| "truthy (JStr s) = (s \<noteq> [])"
| "truthy (JArr xs) = True"
| "truthy (JObj fs) = True"

fun truthy_opt :: "json option \<Rightarrow> bool" where
  "truthy_opt None = False"
| "truthy_opt (Some v) = truthy v"

text \<open>
  String conversion, as a template literal and \<^verbatim>\<open>encodeURIComponent\<close> apply it to
  their argument; \<open>None\<close> when it throws a TypeError. An object is converted by its
  \<^verbatim>\<open>toString\<close>: the inherited one gives \<^verbatim>\<open>[object Object]\<close>; an own property of that
  name, read from JSON, is not a function, and then \<^verbatim>\<open>valueOf\<close>, own or inherited, gives
  no primitive value either, so the conversion throws. An array converts its elements,
  \<^verbatim>\<open>null\<close> to the empty text, and joins them with commas; it throws when an element does.
\<close>

fun join_comma :: "string list \<Rightarrow> string" where
  "join_comma [] = []"
| "join_comma [s] = s"
| "join_comma (s # t # ss) = s @ '','' @ join_comma (t # ss)"

fun toStr :: "json \<Rightarrow> string option" where
  "toStr JNull = Some ''null''"
| "toStr (JBool b) = Some (if b then ''true'' else ''false'')"
| "toStr (JNum s) = Some s"
| "toStr (JStr s) = Some s"
| "toStr (JArr xs) =
     map_option join_comma (those (map (\<lambda>x. case x of JNull \<Rightarrow> Some [] | _ \<Rightarrow> toStr x) xs))"
| "toStr (JObj fs) = (if map_of fs ''toString'' = None then Some ''[object Object]'' else None)"

fun toStr_opt :: "json option \<Rightarrow> string option" where
  "toStr_opt None = Some ''undefined''"
| "toStr_opt (Some v) = toStr v"

text \<open>
  \<^verbatim>\<open>encodeURIComponent(v)\<close>: \<open>v\<close> is converted to a string, which throws a TypeError when
  the conversion does; a string holding an unpaired surrogate throws a URIError; in any
  other string every byte but the unreserved ones becomes \<^verbatim>\<open>%XX\<close>.
\<close>

definition unreserved :: "char \<Rightarrow> bool" where
  "unreserved c = (c = CHR 0x27 \<or>
     c \<in> set ''ABCDEFGHIJKLMNOPQRSTUVWXYZabcdefghijklmnopqrstuvwxyz0123456789-_.!~*()'')"

definition hexdigit :: "nat \<Rightarrow> char" where
  "hexdigit n = ''0123456789ABCDEF'' ! (n mod 16)"

definition percent :: "char \<Rightarrow> string" where
  "percent c = [CHR ''%'', hexdigit (of_char c div 16), hexdigit (of_char c mod 16)]"

fun lone_surrogate :: "string \<Rightarrow> bool" where
  "lone_surrogate (a # b # cs) =
     ((of_char a = (0xED :: nat) \<and> (0xA0 :: nat) \<le> of_char b) \<or> lone_surrogate (b # cs))"
| "lone_surrogate cs = False"

definition encodeURIComponent :: "json option \<Rightarrow> error + string" where
  "encodeURIComponent v =
     (case toStr_opt v of
        None \<Rightarrow> Inl TypeError
      | Some s \<Rightarrow>
          if lone_surrogate s then Inl URIError
          else Inr (concat (map (\<lambda>c. if unreserved c then [c] else percent c) s)))"

definition endsWith :: "string \<Rightarrow> string \<Rightarrow> bool" where
  "endsWith s x = (drop (length s - length x) s = x)"

definition startsWith :: "string \<Rightarrow> string \<Rightarrow> bool" where
  "startsWith s x = (take (length x) s = x)"

section \<open>The sanitizers\<close>

text \<open>\<^verbatim>\<open>delete r.k\<close> on an object.\<close>

definition delete_prop :: "string \<Rightarrow> obj \<Rightarrow> obj" where
  "delete_prop k r = filter (\<lambda>p. fst p \<noteq> k) r"

text \<open>\<^verbatim>\<open>sanitizeForImport\<close> of import-reports.js, as the value it returns.\<close>

definition sanitizeForImport :: "obj \<Rightarrow> obj" where
  "sanitizeForImport report =
     (let r = report;
          r = delete_prop ''id'' r;
          r = delete_prop ''createdAt'' r;
          r = delete_prop ''modifiedAt'' r;
          r = delete_prop ''createdById'' r;
          r = delete_prop ''modifiedById'' r;
          r = delete_prop ''entityId'' r;
          r = delete_prop ''entityType'' r;
          r = delete_prop ''isInternal'' r
      in r)"

text \<open>\<^verbatim>\<open>sanitize\<close> of export-reports.js.\<close>

definition sanitize :: "obj \<Rightarrow> obj" where
  "sanitize report =
     (let r = report;
          r = delete_prop ''id'' r;
          r = delete_prop ''createdAt'' r;
          r = delete_prop ''modifiedAt'' r;
          r = delete_prop ''createdById'' r;
          r = delete_prop ''modifiedById'' r
      in r)"

text \<open>\<^verbatim>\<open>EXCLUDE_FIELDS\<close> and \<^verbatim>\<open>cleanForExport\<close> of export-workflows.js.\<close>

definition EXCLUDE_FIELDS :: "string list" where
  "EXCLUDE_FIELDS = [''createdAt'', ''modifiedAt'', ''createdById'', ''createdByName'',
     ''modifiedById'', ''modifiedByName'']"

definition cleanForExport :: "obj \<Rightarrow> obj" where
  "cleanForExport entity = (let cleaned = entity in fold delete_prop EXCLUDE_FIELDS cleaned)"

subsection \<open>The same functions on objects in memory\<close>

text \<open>
  To say that the argument is left alone, objects live in a heap and are passed by
  reference: a reference is an index into the list of objects. \<^verbatim>\<open>structuredClone\<close> and
  the spread \<^verbatim>\<open>{ ...entity }\<close> allocate a new object with the same properties;
  \<^verbatim>\<open>delete\<close> changes the object it is given. Property values are kept as trees: no
  function below writes under a property, so the sharing the spread leaves between the
  copies' nested values is not observable.
\<close>

type_synonym heap = "obj list"

definition structuredClone :: "heap \<Rightarrow> nat \<Rightarrow> heap \<times> nat" where
  "structuredClone h a = (h @ [h ! a], length h)"

definition spread :: "heap \<Rightarrow> nat \<Rightarrow> heap \<times> nat" where
  "spread h a = (h @ [h ! a], length h)"

definition delete_at :: "nat \<Rightarrow> string \<Rightarrow> heap \<Rightarrow> heap" where
  "delete_at r k h = h[r := delete_prop k (h ! r)]"

definition sanitizeForImport_heap :: "heap \<Rightarrow> nat \<Rightarrow> heap \<times> nat" where
  "sanitizeForImport_heap h report =
     (let (h, r) = structuredClone h report;
          h = delete_at r ''id'' h;
          h = delete_at r ''createdAt'' h;
          h = delete_at r ''modifiedAt'' h;
          h = delete_at r ''createdById'' h;
          h = delete_at r ''modifiedById'' h;
          h = delete_at r ''entityId'' h;
          h = delete_at r ''entityType'' h;
          h = delete_at r ''isInternal'' h
      in (h, r))"

definition sanitize_heap :: "heap \<Rightarrow> nat \<Rightarrow> heap \<times> nat" where
  "sanitize_heap h report =
     (let (h, r) = structuredClone h report;
          h = delete_at r ''id'' h;
          h = delete_at r ''createdAt'' h;
          h = delete_at r ''modifiedAt'' h;
          h = delete_at r ''createdById'' h;
          h = delete_at r ''modifiedById'' h
      in (h, r))"

definition cleanForExport_heap :: "heap \<Rightarrow> nat \<Rightarrow> heap \<times> nat" where
  "cleanForExport_heap h entity =
     (let (h, cleaned) = spread h entity
      in (fold (delete_at cleaned) EXCLUDE_FIELDS h, cleaned))"

section \<open>Requests to the remote application\<close>

text \<open>
  The remote application is not part of the repository. It is a parameter of every
  function that talks to it: a function from a request and the remote's state to a reply
  and the new state. A request is what a script hands to \<^verbatim>\<open>fetch\<close> or to
  \<^verbatim>\<open>http.request\<close>; what these make of it is part of the parameter. A reply is either a
  failure (\<^verbatim>\<open>fetch\<close> rejects, the request emits \<^verbatim>\<open>error\<close>) or an HTTP response. A
  response carries its status, its body as text, and what \<^verbatim>\<open>JSON.parse\<close> makes of that
  text (\<open>None\<close> when it throws). The base URL and the key are fixed for a run and stand
  behind the parameter.
\<close>

datatype credential =
    AuthString string string  \<comment> \<open>base64 of \<^verbatim>\<open>user:password\<close>\<close>
  | Token json                \<comment> \<open>\<^verbatim>\<open>response.token\<close>\<close>

datatype headers =
    XApiKey                        \<comment> \<open>\<^verbatim>\<open>X-Api-Key: API_KEY\<close>\<close>
  | EspoAuthorization credential   \<comment> \<open>\<^verbatim>\<open>Espo-Authorization: ...\<close>\<close>

record request =
  rq_method :: http_method
  rq_path :: string
  rq_headers :: headers
  rq_body :: "json option"

record response =
  res_status :: nat
  res_text :: string
  res_json :: "json option"

datatype reply = Failed string | Answered response

type_synonym 's remote = "request \<Rightarrow> 's \<Rightarrow> reply \<times> 's"

text \<open>What a run has done so far: the remote's state and the requests made, in order.\<close>

record 's world =
  remote_state :: 's
  sent :: "request list"

definition send :: "'s remote \<Rightarrow> request \<Rightarrow> 's world \<Rightarrow> reply \<times> 's world" where
  "send srv rq w =
     (case srv rq (remote_state w) of
        (rep, s) \<Rightarrow> (rep, \<lparr>remote_state = s, sent = sent w @ [rq]\<rparr>))"

definition ok :: "response \<Rightarrow> bool" where
  "ok res = (200 \<le> res_status res \<and> res_status res \<le> 299)"

text \<open>\<^verbatim>\<open>api\<close> of import-reports.js.\<close>

definition api ::
  "'s remote \<Rightarrow> http_method \<Rightarrow> string \<Rightarrow> json option \<Rightarrow> 's world \<Rightarrow> (error + json) \<times> 's world"
where
  "api srv m p body w =
     (case send srv \<lparr>rq_method = m, rq_path = p, rq_headers = XApiKey,
                     rq_body = (if truthy_opt body then body else None)\<rparr> w of
        (Failed e, w) \<Rightarrow> (Inl (TransportError e), w)
      | (Answered res, w) \<Rightarrow>
          if \<not> ok res then (Inl (HttpError m p (res_status res) (res_text res)), w)
          else (case res_json res of
                  None \<Rightarrow> (Inl SyntaxError, w)
                | Some j \<Rightarrow> (Inr j, w)))"

text \<open>
  The workflow scripts do not request the endpoint they are given: \<^verbatim>\<open>apiRequest\<close>
  parses it against the base URL and requests \<^verbatim>\<open>url.pathname + url.search\<close> of the
  result, so that a fragment is cut off, dot segments are resolved and some characters
  are escaped. The parser belongs to the platform, not to the repository, and is a
  parameter of every function that calls \<^verbatim>\<open>apiRequest\<close>: it gives the path and query of
  \<^verbatim>\<open>new URL(endpoint, baseUrl)\<close>, or \<open>None\<close> when the constructor throws its TypeError.
\<close>

type_synonym url_parser = "string \<Rightarrow> string option"

text \<open>\<^verbatim>\<open>apiRequest\<close> of the workflow import script. An exception inside the promise's
  executor rejects the promise.\<close>

definition apiRequest ::
  "url_parser \<Rightarrow> 's remote \<Rightarrow> string \<Rightarrow> headers \<Rightarrow> http_method \<Rightarrow> json option \<Rightarrow> 's world
     \<Rightarrow> (error + json) \<times> 's world"
where
  "apiRequest urlOf srv endpoint hdrs m body w =
     (case urlOf endpoint of
        None \<Rightarrow> (Inl TypeError, w)
      | Some p \<Rightarrow>
          (case send srv \<lparr>rq_method = m, rq_path = p, rq_headers = hdrs,
                          rq_body = (if truthy_opt body then body else None)\<rparr> w of
             (Failed e, w) \<Rightarrow> (Inl (TransportError e), w)
           | (Answered res, w) \<Rightarrow>
               if 200 \<le> res_status res \<and> res_status res < 300 then
                 (Inr (case res_json res of Some j \<Rightarrow> j | None \<Rightarrow> JStr (res_text res)), w)
               else if res_status res = 404 then (Inr JNull, w)
               else (Inl (ApiError (res_status res) (res_text res)), w)))"

text \<open>\<^verbatim>\<open>apiRequest\<close> of export-workflows.js: the same without the 404 branch.\<close>

definition apiRequest_export ::
  "url_parser \<Rightarrow> 's remote \<Rightarrow> string \<Rightarrow> headers \<Rightarrow> http_method \<Rightarrow> json option \<Rightarrow> 's world
     \<Rightarrow> (error + json) \<times> 's world"
where
  "apiRequest_export urlOf srv endpoint hdrs m body w =
     (case urlOf endpoint of
        None \<Rightarrow> (Inl TypeError, w)
      | Some p \<Rightarrow>
          (case send srv \<lparr>rq_method = m, rq_path = p, rq_headers = hdrs,
                          rq_body = (if truthy_opt body then body else None)\<rparr> w of
             (Failed e, w) \<Rightarrow> (Inl (TransportError e), w)
           | (Answered res, w) \<Rightarrow>
               if 200 \<le> res_status res \<and> res_status res < 300 then
                 (Inr (case res_json res of Some j \<Rightarrow> j | None \<Rightarrow> JStr (res_text res)), w)
               else (Inl (ApiError (res_status res) (res_text res)), w)))"

section \<open>Report import (import-reports.js)\<close>

text \<open>\<^verbatim>\<open>res?.list?.[0] || null\<close>.\<close>

definition first_or_null :: "json \<Rightarrow> json" where
  "first_or_null res =
     (case get_prop res ''list'' of
        None \<Rightarrow> JNull
      | Some JNull \<Rightarrow> JNull
      | Some l \<Rightarrow> (case index0 l of
                    None \<Rightarrow> JNull
                  | Some x \<Rightarrow> if truthy x then x else JNull))"

text \<open>\<^verbatim>\<open>findByName\<close>. The path is built before \<^verbatim>\<open>api\<close> is called: when
  \<^verbatim>\<open>encodeURIComponent(name)\<close> throws, nothing is requested.\<close>

definition findByName ::
  "'s remote \<Rightarrow> json option \<Rightarrow> 's world \<Rightarrow> (error + json) \<times> 's world"
where
  "findByName srv name w =
     (case encodeURIComponent name of
        Inl e \<Rightarrow> (Inl e, w)
      | Inr k \<Rightarrow>
          (case api srv GET (''/api/v1/Report?maxSize=1&filters[name]='' @ k) None w of
             (Inl e, w) \<Rightarrow> (Inl e, w)
           | (Inr res, w) \<Rightarrow> (Inr (first_or_null res), w)))"

datatype outcome = Created | Updated

text \<open>The line \<^verbatim>\<open>upsert\<close> prints once the write has succeeded: the template converts
  \<^verbatim>\<open>payload.name\<close> to a string.\<close>

definition printed_line :: "outcome \<Rightarrow> json option \<Rightarrow> 's world \<Rightarrow> (error + outcome) \<times> 's world" where
  "printed_line line name w =
     (case toStr_opt name of
        None \<Rightarrow> (Inl TypeError, w)
      | Some s \<Rightarrow> (Inr line, w))"

text \<open>\<^verbatim>\<open>upsert\<close>. Only an object has a \<^verbatim>\<open>name\<close>: for every other value of
  \<^verbatim>\<open>report\<close>, \<^verbatim>\<open>null\<close> included, \<^verbatim>\<open>report?.name\<close> is \<^verbatim>\<open>undefined\<close> and the first
  line throws, so the last case below is never reached. The path of the update is built
  from \<^verbatim>\<open>existing.id\<close> before \<^verbatim>\<open>api\<close> is called.\<close>

definition upsert ::
  "'s remote \<Rightarrow> json \<Rightarrow> 's world \<Rightarrow> (error + outcome) \<times> 's world"
where
  "upsert srv report w =
     (if \<not> truthy_opt (get_prop report ''name'') then (Inl MissingName, w)
      else case report of
        JObj fs \<Rightarrow>
          (let payload = sanitizeForImport fs in
           case findByName srv (map_of payload ''name'') w of
             (Inl e, w) \<Rightarrow> (Inl e, w)
           | (Inr existing, w) \<Rightarrow>
               if truthy_opt (get_prop existing ''id'') then
                 (case toStr_opt (get_prop existing ''id'') of
                    None \<Rightarrow> (Inl TypeError, w)
                  | Some i \<Rightarrow>
                      (case api srv PATCH (''/api/v1/Report/'' @ i) (Some (JObj payload)) w of
                         (Inl e, w) \<Rightarrow> (Inl e, w)
                       | (Inr _, w) \<Rightarrow> printed_line Updated (map_of payload ''name'') w))
               else
                 (case api srv POST ''/api/v1/Report'' (Some (JObj payload)) w of
                    (Inl e, w) \<Rightarrow> (Inl e, w)
                  | (Inr _, w) \<Rightarrow> printed_line Created (map_of payload ''name'') w))
      | _ \<Rightarrow> (Inl MissingName, w))"

text \<open>
  A directory is the list \<^verbatim>\<open>readdirSync\<close> returns, each name with what
  \<^verbatim>\<open>JSON.parse(readFileSync(...))\<close> gives for it (\<open>None\<close> when either throws).
\<close>

type_synonym dir = "(string \<times> json option) list"

text \<open>The loop of \<^verbatim>\<open>main\<close>: the first exception leaves the loop and reaches the
  \<^verbatim>\<open>catch\<close> at the end of the script (\<^verbatim>\<open>Import failed\<close>, exit code 1). The result is
  that exception, if any, and the \<^verbatim>\<open>Updated\<close>/\<^verbatim>\<open>Created\<close> lines printed.\<close>

fun import_reports ::
  "'s remote \<Rightarrow> dir \<Rightarrow> outcome list \<Rightarrow> 's world \<Rightarrow> (error option \<times> outcome list) \<times> 's world"
where
  "import_reports srv [] printed w = ((None, printed), w)"
| "import_reports srv ((file, content) # files) printed w =
     (case content of
        None \<Rightarrow> ((Some Unreadable, printed), w)
      | Some report \<Rightarrow>
          (case upsert srv report w of
             (Inl e, w) \<Rightarrow> ((Some e, printed), w)
           | (Inr line, w) \<Rightarrow> import_reports srv files (printed @ [line]) w))"

definition report_files :: "dir \<Rightarrow> dir" where
  "report_files entries = filter (\<lambda>f. endsWith (fst f) ''.json'') entries"

definition main_reports ::
  "'s remote \<Rightarrow> dir option \<Rightarrow> 's world \<Rightarrow> (error option \<times> outcome list) \<times> 's world"
where
  "main_reports srv REPORTS_DIR w =
     (case REPORTS_DIR of
        None \<Rightarrow> ((Some Unreadable, []), w)
      | Some entries \<Rightarrow> import_reports srv (report_files entries) [] w)"

section \<open>Workflow import\<close>

definition authenticate ::
  "url_parser \<Rightarrow> 's remote \<Rightarrow> string \<Rightarrow> string \<Rightarrow> 's world \<Rightarrow> (error + credential) \<times> 's world"
where
  "authenticate urlOf srv username password w =
     (let authString = AuthString username password in
      case apiRequest urlOf srv ''/api/v1/App/user'' (EspoAuthorization authString) GET None w of
        (Inl e, w) \<Rightarrow> (Inl (AuthenticationFailed e), w)
      | (Inr response, w) \<Rightarrow>
          (case get_prop response ''token'' of
             Some token \<Rightarrow>
               if truthy response \<and> truthy token then (Inr (Token token), w)
               else (Inr authString, w)
           | None \<Rightarrow> (Inr authString, w)))"

text \<open>\<^verbatim>\<open>entityExists\<close>. The template that builds the endpoint is inside the \<^verbatim>\<open>try\<close>:
  when the conversion of \<^verbatim>\<open>id\<close> throws, the answer is false and nothing is requested.\<close>

definition entityExists ::
  "url_parser \<Rightarrow> 's remote \<Rightarrow> headers \<Rightarrow> json option \<Rightarrow> 's world \<Rightarrow> bool \<times> 's world"
where
  "entityExists urlOf srv authHeaders ident w =
     (case toStr_opt ident of
        None \<Rightarrow> (False, w)
      | Some i \<Rightarrow>
          (case apiRequest urlOf srv (''/api/v1/Workflow/'' @ i) authHeaders GET None w of
             (Inl e, w) \<Rightarrow> (False, w)
           | (Inr result, w) \<Rightarrow> (result \<noteq> JNull, w)))"

record tally =
  created :: nat
  updated :: nat
  errors :: nat

text \<open>\<^verbatim>\<open>workflowData.name || 'Unknown'\<close>.\<close>

definition workflowName :: "json \<Rightarrow> json" where
  "workflowName workflowData =
     (case get_prop workflowData ''name'' of
        Some n \<Rightarrow> if truthy n then n else JStr ''Unknown''
      | None \<Rightarrow> JStr ''Unknown'')"

text \<open>The log line and the counter after a successful request, both inside the \<^verbatim>\<open>try\<close>:
  when the template cannot convert the name, the counter is not reached and the
  \<^verbatim>\<open>catch\<close> counts an error.\<close>

definition logged :: "json \<Rightarrow> tally \<Rightarrow> tally \<Rightarrow> tally" where
  "logged name counted t =
     (case toStr name of
        None \<Rightarrow> t\<lparr>errors := errors t + 1\<rparr>
      | Some s \<Rightarrow> counted)"

text \<open>The body of the loop of \<^verbatim>\<open>main\<close>, with its \<^verbatim>\<open>try\<close>/\<^verbatim>\<open>catch\<close>: what one
  file does to the counters. \<open>content\<close> is what \<^verbatim>\<open>JSON.parse(readFileSync(...))\<close> gives.
  Reading \<^verbatim>\<open>workflowData.id\<close> of \<^verbatim>\<open>null\<close> throws a TypeError inside the \<^verbatim>\<open>try\<close>.\<close>

definition import_workflow ::
  "url_parser \<Rightarrow> 's remote \<Rightarrow> headers \<Rightarrow> json option \<Rightarrow> tally \<Rightarrow> 's world \<Rightarrow> tally \<times> 's world"
where
  "import_workflow urlOf srv authHeaders content t w =
     (case content of
        None \<Rightarrow> (t\<lparr>errors := errors t + 1\<rparr>, w)
      | Some JNull \<Rightarrow> (t\<lparr>errors := errors t + 1\<rparr>, w)
      | Some workflowData \<Rightarrow>
          (let workflowId = get_prop workflowData ''id'' in
           case entityExists urlOf srv authHeaders workflowId w of
             (True, w) \<Rightarrow>
               (case toStr_opt workflowId of
                  None \<Rightarrow> (t\<lparr>errors := errors t + 1\<rparr>, w)
                | Some i \<Rightarrow>
                    (case apiRequest urlOf srv (''/api/v1/Workflow/'' @ i) authHeaders
                            PUT (Some workflowData) w of
                       (Inl e, w) \<Rightarrow> (t\<lparr>errors := errors t + 1\<rparr>, w)
                     | (Inr _, w) \<Rightarrow>
                         (logged (workflowName workflowData) (t\<lparr>updated := updated t + 1\<rparr>) t, w)))
           | (False, w) \<Rightarrow>
               (case apiRequest urlOf srv ''/api/v1/Workflow'' authHeaders POST (Some workflowData) w of
                  (Inl e, w) \<Rightarrow> (t\<lparr>errors := errors t + 1\<rparr>, w)
                | (Inr _, w) \<Rightarrow>
                    (logged (workflowName workflowData) (t\<lparr>created := created t + 1\<rparr>) t, w))))"

text \<open>The loop: one file after the other.\<close>

fun import_workflows ::
  "url_parser \<Rightarrow> 's remote \<Rightarrow> headers \<Rightarrow> dir \<Rightarrow> tally \<Rightarrow> 's world \<Rightarrow> tally \<times> 's world"
where
  "import_workflows urlOf srv authHeaders [] t w = (t, w)"
| "import_workflows urlOf srv authHeaders ((file, content) # files) t w =
     (case import_workflow urlOf srv authHeaders content t w of
        (t, w) \<Rightarrow> import_workflows urlOf srv authHeaders files t w)"

definition workflow_files :: "dir \<Rightarrow> dir" where
  "workflow_files entries =
     filter (\<lambda>f. endsWith (fst f) ''.json'' \<and> \<not> startsWith (fst f) ''_'') entries"

text \<open>What \<^verbatim>\<open>parseArgs\<close> returns, as far as \<^verbatim>\<open>main\<close> reads it after the banner:
  \<^verbatim>\<open>args.user\<close> and \<^verbatim>\<open>args.password\<close>, \<open>None\<close> when unset. (\<^verbatim>\<open>args.url\<close> is the base
  URL, behind the remote and the URL parser.)\<close>

record args =
  args_user :: "string option"
  args_password :: "string option"

text \<open>The workflows directory as \<^verbatim>\<open>main\<close> finds it: \<^verbatim>\<open>existsSync\<close> is false; or it
  is true and \<^verbatim>\<open>readdirSync\<close> throws; or \<^verbatim>\<open>readdirSync\<close> returns the entries.\<close>

datatype folder = Missing | Unlistable | Entries dir

text \<open>How \<^verbatim>\<open>main\<close> ends: it returns early without importing; it calls
  \<^verbatim>\<open>process.exit(1)\<close>; an exception leaves it, which nothing catches (\<^verbatim>\<open>main()\<close> is
  called without a handler, the process ends on the unhandled rejection with exit code
  1 and without a summary); or it prints the summary.\<close>

datatype ending = Skipped | Exit1 | Uncaught | Summary tally

text \<open>\<^verbatim>\<open>main\<close>. \<open>parsed\<close> is what \<^verbatim>\<open>parseArgs()\<close> returns, \<open>None\<close> when it throws
  (\<^verbatim>\<open>loadEnv\<close> reads \<^verbatim>\<open>.env\<close> outside any \<^verbatim>\<open>try\<close>); \<^verbatim>\<open>readdirSync\<close> is outside any
  \<^verbatim>\<open>try\<close> as well.\<close>

definition main_workflows ::
  "url_parser \<Rightarrow> 's remote \<Rightarrow> args option \<Rightarrow> folder \<Rightarrow> 's world \<Rightarrow> ending \<times> 's world"
where
  "main_workflows urlOf srv parsed inputDir w =
     (case parsed of
        None \<Rightarrow> (Uncaught, w)
      | Some args \<Rightarrow>
          (case inputDir of
             Missing \<Rightarrow> (Skipped, w)
           | Unlistable \<Rightarrow> (Uncaught, w)
           | Entries entries \<Rightarrow>
               (let files = workflow_files entries in
                if length files = 0 then (Skipped, w)
                else case (args_user args, args_password args) of
                  (Some u, Some p) \<Rightarrow>
                    if u = [] \<or> p = [] then (Exit1, w)
                    else (case authenticate urlOf srv u p w of
                            (Inl e, w) \<Rightarrow> (Exit1, w)
                          | (Inr authToken, w) \<Rightarrow>
                              (case import_workflows urlOf srv (EspoAuthorization authToken) files
                                      \<lparr>created = 0, updated = 0, errors = 0\<rparr> w of
                                 (t, w) \<Rightarrow> (Summary t, w)))
                | _ \<Rightarrow> (Exit1, w))))"

section \<open>A remote application to run the scripts against\<close>

text \<open>
  Modelled from the spec: the remote application, which the repository only talks to.
  The spec says of it that a lookup filtered by \<^verbatim>\<open>name\<close> with page size 1 answers a
  result list, that a read by identifier answers 404 when nothing has that identifier,
  that an update overwrites the fields of the body on the record with that identifier,
  and that a create makes a new record, under an identifier of the remote's own unless
  the body supplies one. The model keeps, for reports and for workflows, the records in
  the order they were created, each an identifier with its fields. A reply carries the
  record's \<^verbatim>\<open>id\<close>, the only property the scripts read from a reply. The remote
  percent-decodes the name in a lookup and the identifier in an address, and compares
  names as strings.
\<close>

type_synonym entity = "string \<times> (string \<rightharpoonup> json)"

record espo =
  reports :: "entity list"
  workflows :: "entity list"

fun strip_prefix :: "string \<Rightarrow> string \<Rightarrow> string option" where
  "strip_prefix [] s = Some s"
| "strip_prefix (c # cs) [] = None"
| "strip_prefix (c # cs) (d # ds) = (if c = d then strip_prefix cs ds else None)"

text \<open>Percent-decoding: \<^verbatim>\<open>%XX\<close> is the byte with that hexadecimal value.\<close>

definition hexval :: "char \<Rightarrow> nat option" where
  "hexval c =
     (let n = of_char c :: nat in
      if 48 \<le> n \<and> n \<le> 57 then Some (n - 48)
      else if 65 \<le> n \<and> n \<le> 70 then Some (n - 55)
      else if 97 \<le> n \<and> n \<le> 102 then Some (n - 87)
      else None)"

fun percent_decode :: "string \<Rightarrow> string option" where
  "percent_decode [] = Some []"
| "percent_decode (c # cs) =
     (if c = CHR ''%'' then
        (case cs of
           a # b # rest \<Rightarrow>
             (case (hexval a, hexval b) of
                (Some x, Some y) \<Rightarrow> map_option ((#) (char_of (16 * x + y))) (percent_decode rest)
              | _ \<Rightarrow> None)
         | _ \<Rightarrow> None)
      else map_option ((#) c) (percent_decode cs))"

text \<open>The keys a record is found by: its name, when that is a string, and its identifier.\<close>

definition name_key :: "entity \<Rightarrow> string option" where
  "name_key e = (case snd e ''name'' of Some (JStr n) \<Rightarrow> Some n | _ \<Rightarrow> None)"

definition id_key :: "entity \<Rightarrow> string option" where
  "id_key e = Some (fst e)"

text \<open>The identifier of the first record with a given key.\<close>

definition sel :: "(entity \<Rightarrow> string option) \<Rightarrow> string \<Rightarrow> entity list \<Rightarrow> string option" where
  "sel key k es = map_option fst (find (\<lambda>e. key e = Some k) es)"

text \<open>An update writes the body's fields over those of the record.\<close>

definition patch :: "string \<Rightarrow> (string \<rightharpoonup> json) \<Rightarrow> entity list \<Rightarrow> entity list" where
  "patch i p es = map (\<lambda>e. if fst e = i then (fst e, snd e ++ p) else e) es"

text \<open>An identifier no record has: longer than all of them.\<close>

definition fresh_id :: "entity list \<Rightarrow> string" where
  "fresh_id es = replicate (Suc (foldr (\<lambda>e n. max (length (fst e)) n) es 0)) (CHR ''0'')"

text \<open>A create keeps the identifier of the body when it is a non-empty string.\<close>

definition new_id :: "obj \<Rightarrow> entity list \<Rightarrow> string" where
  "new_id p es = (case map_of p ''id'' of
                    Some (JStr i) \<Rightarrow> if i \<noteq> [] then i else fresh_id es
                  | _ \<Rightarrow> fresh_id es)"

definition answer :: "nat \<Rightarrow> json \<Rightarrow> reply" where
  "answer code j = Answered \<lparr>res_status = code, res_text = [], res_json = Some j\<rparr>"

definition found :: "string \<Rightarrow> json" where
  "found i = JObj [(''id'', JStr i)]"

text \<open>What a lookup or an address ends in, decoded.\<close>

definition addressed :: "string \<Rightarrow> string \<Rightarrow> string option" where
  "addressed prefix p =
     (case strip_prefix prefix p of
        None \<Rightarrow> None
      | Some k \<Rightarrow> percent_decode k)"

definition espo_get :: "string \<Rightarrow> espo \<Rightarrow> reply" where
  "espo_get p s =
     (case addressed ''/api/v1/Report?maxSize=1&filters[name]='' p of
        Some n \<Rightarrow>
          answer 200 (JObj [(''list'', JArr (case sel name_key n (reports s) of
                                                None \<Rightarrow> []
                                              | Some i \<Rightarrow> [found i]))])
      | None \<Rightarrow>
          (case addressed ''/api/v1/Workflow/'' p of
             Some i \<Rightarrow>
               (case sel id_key i (workflows s) of
                  Some j \<Rightarrow> answer 200 (found j)
                | None \<Rightarrow> answer 404 JNull)
           | None \<Rightarrow>
               if p = ''/api/v1/App/user'' then answer 200 (JObj [])
               else answer 404 JNull))"

definition espo_update :: "string \<Rightarrow> obj \<Rightarrow> entity list \<Rightarrow> reply \<times> entity list" where
  "espo_update i p es =
     (if i \<in> fst ` set es then (answer 200 (found i), patch i (map_of p) es)
      else (answer 404 JNull, es))"

definition espo_create :: "obj \<Rightarrow> entity list \<Rightarrow> reply \<times> entity list" where
  "espo_create p es =
     (let i = new_id p es in
      if i \<in> fst ` set es then (answer 409 JNull, es)
      else (answer 200 (found i), es @ [(i, map_of p)]))"

definition espo :: "espo remote" where
  "espo rq s =
     (case (rq_method rq, rq_body rq) of
        (GET, _) \<Rightarrow> (espo_get (rq_path rq) s, s)
      | (PATCH, Some (JObj p)) \<Rightarrow>
          (case addressed ''/api/v1/Report/'' (rq_path rq) of
             Some i \<Rightarrow> (case espo_update i p (reports s) of (rep, es) \<Rightarrow> (rep, s\<lparr>reports := es\<rparr>))
           | None \<Rightarrow> (answer 404 JNull, s))
      | (PUT, Some (JObj p)) \<Rightarrow>
          (case addressed ''/api/v1/Workflow/'' (rq_path rq) of
             Some i \<Rightarrow> (case espo_update i p (workflows s) of (rep, es) \<Rightarrow> (rep, s\<lparr>workflows := es\<rparr>))
           | None \<Rightarrow> (answer 404 JNull, s))
      | (POST, Some (JObj p)) \<Rightarrow>
          if rq_path rq = ''/api/v1/Report'' then
            (case espo_create p (reports s) of (rep, es) \<Rightarrow> (rep, s\<lparr>reports := es\<rparr>))
          else if rq_path rq = ''/api/v1/Workflow'' then
            (case espo_create p (workflows s) of (rep, es) \<Rightarrow> (rep, s\<lparr>workflows := es\<rparr>))
          else (answer 404 JNull, s)
      | _ \<Rightarrow> (answer 400 JNull, s))"

text \<open>A remote that is down, and one that gives the same answer to everything.\<close>

definition unreachable :: "unit remote" where
  "unreachable rq s = (Failed ''ECONNREFUSED'', s)"

definition always :: "response \<Rightarrow> unit remote" where
  "always res rq s = (Answered res, s)"

definition start :: "'s \<Rightarrow> 's world" where
  "start s = \<lparr>remote_state = s, sent = []\<rparr>"

text \<open>
  An identifier is plain when it is made of letters, digits, \<^verbatim>\<open>-\<close> and \<^verbatim>\<open>_\<close> and is not
  empty. An endpoint that ends in such an identifier has no fragment, no query, no dot
  segment and nothing to escape: a URL parser returns it as it is. That is a condition
  on the parser, which the idempotence statement makes. In the examples below every
  endpoint is of this kind, and the parser that stands in for the platform's is
  \<open>as_written\<close>, which returns the endpoint it is given.
\<close>

definition plain_chars :: string where
  "plain_chars = ''ABCDEFGHIJKLMNOPQRSTUVWXYZabcdefghijklmnopqrstuvwxyz0123456789-_''"

definition plain :: "string \<Rightarrow> bool" where
  "plain i = (i \<noteq> [] \<and> (\<forall>c \<in> set i. c \<in> set plain_chars))"


definition as_written :: url_parser where
  "as_written endpoint = Some endpoint"

section \<open>The requests the scripts make\<close>

text \<open>Names for the requests built inside \<^verbatim>\<open>findByName\<close>, \<^verbatim>\<open>upsert\<close>, \<^verbatim>\<open>entityExists\<close>
  and the workflow loop, to state what was sent. \<open>k\<close> is a name as
  \<^verbatim>\<open>encodeURIComponent\<close> returned it, \<open>i\<close> an identifier as the template converted it,
  \<open>p\<close> a path as the URL parser returned it.\<close>

definition lookup_by_name :: "string \<Rightarrow> request" where
  "lookup_by_name k =
     \<lparr>rq_method = GET, rq_path = ''/api/v1/Report?maxSize=1&filters[name]='' @ k,
      rq_headers = XApiKey, rq_body = None\<rparr>"

definition update_report :: "string \<Rightarrow> obj \<Rightarrow> request" where
  "update_report i payload =
     \<lparr>rq_method = PATCH, rq_path = ''/api/v1/Report/'' @ i,
      rq_headers = XApiKey, rq_body = Some (JObj payload)\<rparr>"

definition create_report :: "obj \<Rightarrow> request" where
  "create_report payload =
     \<lparr>rq_method = POST, rq_path = ''/api/v1/Report'',
      rq_headers = XApiKey, rq_body = Some (JObj payload)\<rparr>"

text \<open>The write that \<^verbatim>\<open>upsert\<close> makes for what \<^verbatim>\<open>findByName\<close> returned: an update of
  the match when it has a truthy \<^verbatim>\<open>id\<close>, none at all when that \<^verbatim>\<open>id\<close> cannot be
  converted to a string, a create otherwise.\<close>

definition write_report :: "json \<Rightarrow> obj \<Rightarrow> request list" where
  "write_report existing payload =
     (if truthy_opt (get_prop existing ''id'') then
        (case toStr_opt (get_prop existing ''id'') of
           None \<Rightarrow> []
         | Some i \<Rightarrow> [update_report i payload])
      else [create_report payload])"

definition workflow_request :: "http_method \<Rightarrow> string \<Rightarrow> headers \<Rightarrow> json option \<Rightarrow> request" where
  "workflow_request m p authHeaders body =
     \<lparr>rq_method = m, rq_path = p, rq_headers = authHeaders,
      rq_body = (if truthy_opt body then body else None)\<rparr>"

section \<open>Environment-bound fields\<close>

text \<open>A request is portable when its body, if it has one, is an object without the
  fields that only mean something in the environment that wrote them.\<close>

definition env_bound :: "string list" where
  "env_bound = [''createdAt'', ''modifiedAt'', ''createdById'', ''modifiedById'']"

definition portable :: "request \<Rightarrow> bool" where
  "portable rq =
     (case rq_body rq of
        None \<Rightarrow> True
      | Some (JObj fs) \<Rightarrow> (\<forall>k \<in> set env_bound. k \<notin> fst ` set fs)
      | Some _ \<Rightarrow> False)"

section \<open>Upserting a batch\<close>












definition unique_ids :: "entity list \<Rightarrow> bool" where
  "unique_ids es = (distinct (map fst es) \<and> (\<forall>i \<in> set (map fst es). plain i))"



section \<open>Evaluating the definitions\<close>

lemmas js_defs =
  endsWith_def startsWith_def encodeURIComponent_def unreserved_def percent_def hexdigit_def
  delete_prop_def sanitizeForImport_def first_or_null_def Let_def

lemmas client_defs =
  send_def ok_def api_def apiRequest_def findByName_def printed_line_def upsert_def
  report_files_def main_reports_def authenticate_def entityExists_def workflowName_def
  logged_def import_workflow_def workflow_files_def main_workflows_def start_def as_written_def

lemmas espo_defs =
  espo_def espo_get_def espo_update_def espo_create_def addressed_def answer_def found_def
  sel_def name_key_def id_key_def patch_def fresh_id_def new_id_def hexval_def char_of_def bit_0

section \<open>The sanitizers remove a fixed set of fields\<close>

lemma fold_delete_prop: "fold delete_prop ks r = filter (\<lambda>p. fst p \<notin> set ks) r"
  by (induction ks arbitrary: r) (auto simp: delete_prop_def intro: filter_cong)

lemma sanitizeForImport_filter:
  "sanitizeForImport S =
     filter (\<lambda>p. fst p \<notin> {''id'', ''createdAt'', ''modifiedAt'', ''createdById'',
                            ''modifiedById'', ''entityId'', ''entityType'', ''isInternal''}) S"
  unfolding sanitizeForImport_def Let_def delete_prop_def filter_filter
  by (rule filter_cong) auto

lemma sanitize_filter:
  "sanitize S =
     filter (\<lambda>p. fst p \<notin> {''id'', ''createdAt'', ''modifiedAt'', ''createdById'',
                            ''modifiedById''}) S"
  unfolding sanitize_def Let_def delete_prop_def filter_filter
  by (rule filter_cong) auto

lemma cleanForExport_filter:
  "cleanForExport S =
     filter (\<lambda>p. fst p \<notin> {''createdAt'', ''modifiedAt'', ''createdById'', ''createdByName'',
                            ''modifiedById'', ''modifiedByName''}) S"
  unfolding cleanForExport_def Let_def fold_delete_prop
  by (simp add: EXCLUDE_FIELDS_def)

lemma delete_at_new: "delete_at (length h) k (h @ [x]) = h @ [delete_prop k x]"
  by (simp add: delete_at_def)

lemma fold_delete_at_new:
  "fold (delete_at (length h)) ks (h @ [x]) = h @ [fold delete_prop ks x]"
  by (induction ks arbitrary: x) (simp_all add: delete_at_new)

lemma sanitizeForImport_heap_eq:
  "sanitizeForImport_heap h a = (h @ [sanitizeForImport (h ! a)], length h)"
  by (simp add: sanitizeForImport_heap_def structuredClone_def sanitizeForImport_def
      delete_at_new)

lemma sanitize_heap_eq: "sanitize_heap h a = (h @ [sanitize (h ! a)], length h)"
  by (simp add: sanitize_heap_def structuredClone_def sanitize_def delete_at_new)

lemma cleanForExport_heap_eq:
  "cleanForExport_heap h a = (h @ [cleanForExport (h ! a)], length h)"
  by (simp add: cleanForExport_heap_def spread_def cleanForExport_def fold_delete_at_new)

text \<open>
  C3, as stated, fails on the code: the export of workflows keeps \<^verbatim>\<open>id\<close>, and it drops
  \<^verbatim>\<open>createdByName\<close>, which is not among the fields the claim lists.
\<close>

theorem cleanForExport_keeps_id:
  "cleanForExport [(''id'', JStr ''w42''), (''createdByName'', JStr ''Admin''),
                   (''name'', JStr ''Notify owner'')]
   = [(''id'', JStr ''w42''), (''name'', JStr ''Notify owner'')]"
  by (simp add: cleanForExport_def EXCLUDE_FIELDS_def delete_prop_def)

text \<open>
  C3 (amended): each sanitizer returns a new object that is its argument without a fixed
  set of fields, every other field kept in place with its value, nested structures
  included, and leaves its argument as it was. The set is \<^verbatim>\<open>id\<close>, \<^verbatim>\<open>createdAt\<close>,
  \<^verbatim>\<open>modifiedAt\<close>, \<^verbatim>\<open>createdById\<close>, \<^verbatim>\<open>modifiedById\<close> for the export of reports; the same
  with \<^verbatim>\<open>entityId\<close>, \<^verbatim>\<open>entityType\<close>, \<^verbatim>\<open>isInternal\<close> for the import of reports; and
  \<^verbatim>\<open>createdAt\<close>, \<^verbatim>\<open>modifiedAt\<close>, \<^verbatim>\<open>createdById\<close>, \<^verbatim>\<open>createdByName\<close>, \<^verbatim>\<open>modifiedById\<close>,
  \<^verbatim>\<open>modifiedByName\<close> for the export of workflows, which keeps \<^verbatim>\<open>id\<close>. In memory, where
  \<open>a\<close> refers to the argument: every object that was there is unchanged, and the result
  is a new reference to the filtered object.
\<close>

theorem sanitizers_remove_fixed_fields:
  assumes "a < length h"
  shows
    "sanitizeForImport S =
       filter (\<lambda>p. fst p \<notin> {''id'', ''createdAt'', ''modifiedAt'', ''createdById'',
                              ''modifiedById'', ''entityId'', ''entityType'', ''isInternal''}) S
     \<and> sanitize S =
       filter (\<lambda>p. fst p \<notin> {''id'', ''createdAt'', ''modifiedAt'', ''createdById'',
                              ''modifiedById''}) S
     \<and> cleanForExport S =
       filter (\<lambda>p. fst p \<notin> {''createdAt'', ''modifiedAt'', ''createdById'', ''createdByName'',
                              ''modifiedById'', ''modifiedByName''}) S
     \<and> sanitizeForImport_heap h a = (h @ [sanitizeForImport (h ! a)], length h)
     \<and> sanitize_heap h a = (h @ [sanitize (h ! a)], length h)
     \<and> cleanForExport_heap h a = (h @ [cleanForExport (h ! a)], length h)
     \<and> fst (sanitizeForImport_heap h a) ! a = h ! a
     \<and> fst (sanitize_heap h a) ! a = h ! a
     \<and> fst (cleanForExport_heap h a) ! a = h ! a"
  using assms sanitizeForImport_filter [of S] sanitize_filter [of S] cleanForExport_filter [of S]
  by (simp add: sanitizeForImport_heap_eq sanitize_heap_eq cleanForExport_heap_eq nth_append)

theorem sanitizers_remove_fixed_fields_witness:
  "sanitizeForImport [(''id'', JStr ''r1''), (''name'', JStr ''Sales Q1''),
                      (''entityType'', JStr ''Lead''),
                      (''columns'', JArr [JObj [(''id'', JStr ''c1'')]])]
     = [(''name'', JStr ''Sales Q1''), (''columns'', JArr [JObj [(''id'', JStr ''c1'')]])]
   \<and> sanitizeForImport_heap [[(''id'', JStr ''r1''), (''name'', JStr ''Sales Q1'')]] 0
     = ([[(''id'', JStr ''r1''), (''name'', JStr ''Sales Q1'')], [(''name'', JStr ''Sales Q1'')]], 1)
   \<and> cleanForExport_heap [[(''id'', JStr ''w42''), (''createdAt'', JStr ''2024-01-01'')]] 0
     = ([[(''id'', JStr ''w42''), (''createdAt'', JStr ''2024-01-01'')], [(''id'', JStr ''w42'')]], 1)"
  using sanitizers_remove_fixed_fields
    [of 0 "[[(''id'', JStr ''r1''), (''name'', JStr ''Sales Q1'')]]"
        "[(''id'', JStr ''r1''), (''name'', JStr ''Sales Q1''), (''entityType'', JStr ''Lead''),
          (''columns'', JArr [JObj [(''id'', JStr ''c1'')]])]"]
    sanitizers_remove_fixed_fields
    [of 0 "[[(''id'', JStr ''w42''), (''createdAt'', JStr ''2024-01-01'')]]" "[]"]
  by (simp add: js_defs cleanForExport_def EXCLUDE_FIELDS_def sanitize_def)

section \<open>Encoding and decoding\<close>

lemma hexval_hexdigit: "k < 16 \<Longrightarrow> hexval (hexdigit k) = Some k"
proof -
  assume "k < 16"
  then have "k = 0 \<or> k = 1 \<or> k = 2 \<or> k = 3 \<or> k = 4 \<or> k = 5 \<or> k = 6 \<or> k = 7 \<or> k = 8
     \<or> k = 9 \<or> k = 10 \<or> k = 11 \<or> k = 12 \<or> k = 13 \<or> k = 14 \<or> k = 15" by arith
  then show ?thesis
    by (elim disjE) (simp_all add: hexval_def hexdigit_def)
qed

lemma decode_percent:
  "percent_decode (percent c @ X) = map_option ((#) c) (percent_decode X)"
proof -
  have "(of_char c :: nat) mod 256 < 256" by (rule mod_less_divisor) simp
  then have l: "(of_char c :: nat) < 256" by simp
  have a: "(of_char c :: nat) div 16 < 16"
    using l by (simp add: less_mult_imp_div_less)
  have b: "(of_char c :: nat) mod 16 < 16" by simp
  have c: "(16 * (of_char c div 16) + of_char c mod 16 :: nat) = of_char c" by simp
  show ?thesis
    by (simp add: percent_def hexval_hexdigit [OF a] hexval_hexdigit [OF b] c del: mod_less)
qed

lemma unreserved_not_percent: "unreserved c \<Longrightarrow> c \<noteq> CHR ''%''"
  by (auto simp: unreserved_def)

text \<open>What \<^verbatim>\<open>encodeURIComponent\<close> returns decodes to the string it was given.\<close>

lemma decode_encode:
  "percent_decode (concat (map (\<lambda>c. if unreserved c then [c] else percent c) s)) = Some s"
proof (induction s)
  case Nil
  then show ?case by simp
next
  case (Cons c s)
  show ?case
  proof (cases "unreserved c")
    case True
    then show ?thesis using Cons unreserved_not_percent [OF True] by simp
  next
    case False
    then show ?thesis using Cons decode_percent by simp
  qed
qed


lemma encode_decodes:
  "encodeURIComponent (Some (JStr n)) = Inr k \<Longrightarrow> percent_decode k = Some n"
  by (auto simp: encodeURIComponent_def decode_encode split: if_splits)



lemma strip_prefix_append: "strip_prefix p (p @ s) = Some s"
  by (induction p) simp_all

lemma addressed_append: "addressed p (p @ k) = percent_decode k"
  by (simp add: addressed_def strip_prefix_append)

section \<open>What one request does\<close>

lemma send_sent: "sent (snd (send srv rq w)) = sent w @ [rq]"
  by (simp add: send_def split: prod.splits)

lemma send_state: "remote_state (snd (send srv rq w)) = snd (srv rq (remote_state w))"
  by (simp add: send_def split: prod.splits)

lemma send_reply: "fst (send srv rq w) = fst (srv rq (remote_state w))"
  by (simp add: send_def split: prod.splits)

lemma api_snd:
  "snd (api srv m p b w) =
     snd (send srv \<lparr>rq_method = m, rq_path = p, rq_headers = XApiKey,
                     rq_body = (if truthy_opt b then b else None)\<rparr> w)"
  by (simp add: api_def split: prod.splits reply.splits option.splits)

lemma api_fst:
  "fst (api srv m p b w) =
     (case fst (srv \<lparr>rq_method = m, rq_path = p, rq_headers = XApiKey,
                     rq_body = (if truthy_opt b then b else None)\<rparr> (remote_state w)) of
        Failed e \<Rightarrow> Inl (TransportError e)
      | Answered res \<Rightarrow>
          if \<not> ok res then Inl (HttpError m p (res_status res) (res_text res))
          else (case res_json res of None \<Rightarrow> Inl SyntaxError | Some j \<Rightarrow> Inr j))"
proof -
  define rq where "rq = \<lparr>rq_method = m, rq_path = p, rq_headers = XApiKey,
                     rq_body = (if truthy_opt b then b else None)\<rparr>"
  obtain rep s where r: "srv rq (remote_state w) = (rep, s)" by fastforce
  show ?thesis
    unfolding api_def send_def rq_def [symmetric] r
    by (cases rep) (simp_all split: option.splits)
qed

lemma apiRequest_None:
  "urlOf p = None \<Longrightarrow> apiRequest urlOf srv p h m b w = (Inl TypeError, w)"
  by (simp add: apiRequest_def)

lemma apiRequest_snd:
  assumes "urlOf p = Some q"
  shows "snd (apiRequest urlOf srv p h m b w) = snd (send srv (workflow_request m q h b) w)"
  using assms
  by (simp add: apiRequest_def workflow_request_def split: prod.splits reply.splits option.splits)

lemma apiRequest_fst:
  assumes "urlOf p = Some q"
  shows "fst (apiRequest urlOf srv p h m b w) =
     (case fst (srv (workflow_request m q h b) (remote_state w)) of
        Failed e \<Rightarrow> Inl (TransportError e)
      | Answered res \<Rightarrow>
          if 200 \<le> res_status res \<and> res_status res < 300 then
            Inr (case res_json res of Some j \<Rightarrow> j | None \<Rightarrow> JStr (res_text res))
          else if res_status res = 404 then Inr JNull
          else Inl (ApiError (res_status res) (res_text res)))"
proof -
  obtain rep s where r: "srv (workflow_request m q h b) (remote_state w) = (rep, s)" by fastforce
  show ?thesis
    unfolding apiRequest_def send_def assms option.case workflow_request_def [symmetric] r
    by (cases rep) simp_all
qed

lemma apiRequest_sent:
  "sent (snd (apiRequest urlOf srv p h m b w)) =
     sent w @ (case urlOf p of None \<Rightarrow> [] | Some q \<Rightarrow> [workflow_request m q h b])"
proof (cases "urlOf p")
  case None
  then show ?thesis by (simp add: apiRequest_None)
next
  case (Some q)
  then show ?thesis by (simp add: apiRequest_snd [where urlOf = urlOf and p = p, OF Some] send_sent)
qed

lemma findByName_Inl:
  "encodeURIComponent name = Inl e \<Longrightarrow> findByName srv name w = (Inl e, w)"
  by (simp add: findByName_def)

lemma findByName_snd:
  assumes "encodeURIComponent name = Inr k"
  shows "snd (findByName srv name w) = snd (send srv (lookup_by_name k) w)"
  using assms api_snd [of srv GET "''/api/v1/Report?maxSize=1&filters[name]='' @ k" None w]
  by (auto simp: findByName_def lookup_by_name_def split: prod.splits sum.splits)

lemma findByName_fst:
  assumes "encodeURIComponent name = Inr k"
  shows "fst (findByName srv name w) =
     (case fst (api srv GET (''/api/v1/Report?maxSize=1&filters[name]='' @ k) None w) of
        Inl e \<Rightarrow> Inl e | Inr res \<Rightarrow> Inr (first_or_null res))"
  using assms by (simp add: findByName_def split: prod.splits sum.splits)

lemma findByName_reply:
  assumes "encodeURIComponent name = Inr k"
  shows "fst (findByName srv name w) =
     (case fst (srv (lookup_by_name k) (remote_state w)) of
        Failed e \<Rightarrow> Inl (TransportError e)
      | Answered res \<Rightarrow>
          if \<not> ok res
          then Inl (HttpError GET (''/api/v1/Report?maxSize=1&filters[name]='' @ k)
                      (res_status res) (res_text res))
          else (case res_json res of None \<Rightarrow> Inl SyntaxError | Some j \<Rightarrow> Inr (first_or_null j)))"
  unfolding findByName_fst [OF assms] api_fst
  by (simp add: lookup_by_name_def split: reply.splits option.splits)

lemma entityExists_unconverted:
  "toStr_opt i = None \<Longrightarrow> entityExists urlOf srv h i w = (False, w)"
  by (simp add: entityExists_def)

lemma entityExists_unparsed:
  "toStr_opt i = Some s \<Longrightarrow> urlOf (''/api/v1/Workflow/'' @ s) = None
     \<Longrightarrow> entityExists urlOf srv h i w = (False, w)"
  by (simp add: entityExists_def apiRequest_None)

lemma entityExists_snd:
  assumes "toStr_opt i = Some s" "urlOf (''/api/v1/Workflow/'' @ s) = Some q"
  shows "snd (entityExists urlOf srv h i w) = snd (send srv (workflow_request GET q h None) w)"
  using assms apiRequest_snd [where urlOf = urlOf and p = "''/api/v1/Workflow/'' @ s", OF assms(2), of srv h GET None w]
  by (auto simp: entityExists_def split: prod.splits sum.splits)

lemma entityExists_fst:
  assumes "toStr_opt i = Some s" "urlOf (''/api/v1/Workflow/'' @ s) = Some q"
  shows "fst (entityExists urlOf srv h i w) =
     (case fst (srv (workflow_request GET q h None) (remote_state w)) of
        Failed e \<Rightarrow> False
      | Answered res \<Rightarrow>
          if 200 \<le> res_status res \<and> res_status res < 300
          then (case res_json res of Some j \<Rightarrow> j \<noteq> JNull | None \<Rightarrow> True)
          else False)"
proof -
  have ex: "fst (entityExists urlOf srv h i w) =
      (case fst (apiRequest urlOf srv (''/api/v1/Workflow/'' @ s) h GET None w) of
         Inl e \<Rightarrow> False | Inr r \<Rightarrow> r \<noteq> JNull)"
    using assms(1) by (simp add: entityExists_def split: prod.splits sum.splits)
  show ?thesis
    unfolding ex apiRequest_fst [where urlOf = urlOf and p = "''/api/v1/Workflow/'' @ s", OF assms(2)]
    by (simp split: reply.splits option.splits)
qed

lemma entityExists_converts:
  "fst (entityExists urlOf srv h i w) \<Longrightarrow> \<exists>s. toStr_opt i = Some s"
  by (cases "toStr_opt i") (simp_all add: entityExists_unconverted)

section \<open>The request primitives and the status of the response\<close>

text \<open>
  C8, as stated, fails on the code: \<^verbatim>\<open>api\<close> of the report import and \<^verbatim>\<open>apiRequest\<close> of
  the workflow export raise on a 404 as on any other status outside 200..299.
\<close>

theorem api_404_is_error:
  "fst (api (always \<lparr>res_status = 404, res_text = ''Not Found'', res_json = None\<rparr>)
          GET ''/api/v1/Report/r1'' None (start ()))
     = Inl (HttpError GET ''/api/v1/Report/r1'' 404 ''Not Found'')
   \<and> fst (apiRequest_export as_written
          (always \<lparr>res_status = 404, res_text = ''Not Found'', res_json = None\<rparr>)
          ''/api/v1/Workflow/w42'' (EspoAuthorization (AuthString ''admin'' ''pw'')) GET None (start ()))
     = Inl (ApiError 404 ''Not Found'')"
  by (simp add: client_defs apiRequest_export_def always_def)

text \<open>
  C8 (amended): whatever the remote answers, \<^verbatim>\<open>apiRequest\<close> of the workflow import
  returns the parsed body for a status in 200..299 (the raw text when the body is not
  JSON), \<^verbatim>\<open>null\<close> for 404, and raises an error carrying the status and the response text
  for every other status. \<^verbatim>\<open>api\<close> of the report import returns the parsed body for a
  status in 200..299 (an error when the body is not JSON) and raises an error carrying
  method, path, status and response text for every other status, 404 included;
  \<^verbatim>\<open>apiRequest\<close> of the workflow export is that of the import without the 404 case.
  The two \<^verbatim>\<open>apiRequest\<close> request the path the URL parser makes of their endpoint, \<open>p\<close>
  below, and raise the parser's TypeError, requesting nothing, when it has none.
\<close>

theorem request_status_mapping:
  assumes "\<And>hdr. fst (srv \<lparr>rq_method = m, rq_path = p, rq_headers = hdr,
                         rq_body = (if truthy_opt b then b else None)\<rparr> (remote_state w))
                = Answered res"
  shows
    "(urlOf endpoint = Some p \<longrightarrow>
        fst (apiRequest urlOf srv endpoint hdr m b w) =
          (if 200 \<le> res_status res \<and> res_status res < 300
           then Inr (case res_json res of Some j \<Rightarrow> j | None \<Rightarrow> JStr (res_text res))
           else if res_status res = 404 then Inr JNull
           else Inl (ApiError (res_status res) (res_text res))))
     \<and> fst (api srv m p b w) =
       (if 200 \<le> res_status res \<and> res_status res < 300
        then (case res_json res of Some j \<Rightarrow> Inr j | None \<Rightarrow> Inl SyntaxError)
        else Inl (HttpError m p (res_status res) (res_text res)))
     \<and> (urlOf endpoint = Some p \<longrightarrow>
        fst (apiRequest_export urlOf srv endpoint hdr m b w) =
          (if 200 \<le> res_status res \<and> res_status res < 300
           then Inr (case res_json res of Some j \<Rightarrow> j | None \<Rightarrow> JStr (res_text res))
           else Inl (ApiError (res_status res) (res_text res))))
     \<and> (urlOf endpoint = None \<longrightarrow>
        apiRequest urlOf srv endpoint hdr m b w = (Inl TypeError, w)
        \<and> apiRequest_export urlOf srv endpoint hdr m b w = (Inl TypeError, w))"
proof -
  have a: "fst (srv \<lparr>rq_method = m, rq_path = p, rq_headers = hdr,
                         rq_body = (if truthy_opt b then b else None)\<rparr> (remote_state w))
                = Answered res" for hdr using assms by blast
  show ?thesis
    using a [of hdr] a [of XApiKey]
    by (auto simp: apiRequest_def api_def apiRequest_export_def send_def ok_def
        split: prod.splits option.splits)
qed

theorem request_status_mapping_witness:
  "fst (apiRequest as_written (always \<lparr>res_status = 404, res_text = ''Not Found'', res_json = None\<rparr>)
          ''/api/v1/Workflow/w42'' (EspoAuthorization (AuthString ''admin'' ''pw'')) GET None (start ()))
     = Inr JNull
  \<and> fst (apiRequest as_written (always \<lparr>res_status = 200, res_text = ''{}'', res_json = Some (JObj [])\<rparr>)
          ''/api/v1/Workflow/w42'' (EspoAuthorization (AuthString ''admin'' ''pw'')) GET None (start ()))
     = Inr (JObj [])
  \<and> fst (apiRequest as_written (always \<lparr>res_status = 500, res_text = ''boom'', res_json = None\<rparr>)
          ''/api/v1/Workflow/w42'' (EspoAuthorization (AuthString ''admin'' ''pw'')) GET None (start ()))
     = Inl (ApiError 500 ''boom'')"
  using request_status_mapping [of "always \<lparr>res_status = 404, res_text = ''Not Found'', res_json = None\<rparr>"
      GET "''/api/v1/Workflow/w42''" None "start ()" "\<lparr>res_status = 404, res_text = ''Not Found'', res_json = None\<rparr>"
      as_written "''/api/v1/Workflow/w42''" "EspoAuthorization (AuthString ''admin'' ''pw'')"]
   request_status_mapping [of "always \<lparr>res_status = 200, res_text = ''{}'', res_json = Some (JObj [])\<rparr>"
      GET "''/api/v1/Workflow/w42''" None "start ()" "\<lparr>res_status = 200, res_text = ''{}'', res_json = Some (JObj [])\<rparr>"
      as_written "''/api/v1/Workflow/w42''" "EspoAuthorization (AuthString ''admin'' ''pw'')"]
   request_status_mapping [of "always \<lparr>res_status = 500, res_text = ''boom'', res_json = None\<rparr>"
      GET "''/api/v1/Workflow/w42''" None "start ()" "\<lparr>res_status = 500, res_text = ''boom'', res_json = None\<rparr>"
      as_written "''/api/v1/Workflow/w42''" "EspoAuthorization (AuthString ''admin'' ''pw'')"]
  by (simp add: always_def as_written_def)

section \<open>Errors while resolving identity\<close>

text \<open>
  C5, as stated, fails on the code: when the remote cannot be reached, or answers 500,
  \<^verbatim>\<open>entityExists\<close> answers that the workflow does not exist.
\<close>

theorem entityExists_swallows_errors:
  "entityExists as_written unreachable (EspoAuthorization (AuthString ''admin'' ''pw''))
       (Some (JStr ''w42'')) (start ())
     = (False, \<lparr>remote_state = (),
                 sent = [\<lparr>rq_method = GET, rq_path = ''/api/v1/Workflow/w42'',
                          rq_headers = EspoAuthorization (AuthString ''admin'' ''pw''),
                          rq_body = None\<rparr>]\<rparr>)
   \<and> fst (entityExists as_written
            (always \<lparr>res_status = 500, res_text = ''boom'', res_json = None\<rparr>)
            (EspoAuthorization (AuthString ''admin'' ''pw'')) (Some (JStr ''w42'')) (start ()))
     = False"
  by (simp add: client_defs unreachable_def always_def)

text \<open>
  C5 (amended): identity resolution makes at most one request and never retries. In the
  report import, \<^verbatim>\<open>findByName\<close> requests nothing when the name cannot be converted to a
  string or encoded, and raises that TypeError or URIError; otherwise it makes the one
  lookup and passes a transport error, and the error of any response outside 200..299
  (404 included), on to its caller as \<^verbatim>\<open>api\<close> raised it. In the workflow import,
  \<^verbatim>\<open>entityExists\<close> requests nothing when the \<^verbatim>\<open>id\<close> cannot be converted to a string or
  the URL parser rejects the endpoint, and otherwise makes the one read; it catches every
  error, these two included, and answers false.
\<close>

theorem resolver_errors:
  fixes srv :: "'s remote"
  shows
    "(\<forall>e. encodeURIComponent name = Inl e \<longrightarrow> findByName srv name w = (Inl e, w))
     \<and> (\<forall>k. encodeURIComponent name = Inr k \<longrightarrow>
          sent (snd (findByName srv name w)) = sent w @ [lookup_by_name k]
          \<and> (\<forall>e. fst (srv (lookup_by_name k) (remote_state w)) = Failed e
                \<longrightarrow> fst (findByName srv name w) = Inl (TransportError e))
          \<and> (\<forall>res. fst (srv (lookup_by_name k) (remote_state w)) = Answered res
                    \<and> \<not> (200 \<le> res_status res \<and> res_status res \<le> 299)
                \<longrightarrow> fst (findByName srv name w) =
                      Inl (HttpError GET (rq_path (lookup_by_name k))
                             (res_status res) (res_text res))))
     \<and> (toStr_opt i = None \<longrightarrow> entityExists urlOf srv h i w = (False, w))
     \<and> (\<forall>s. toStr_opt i = Some s \<and> urlOf (''/api/v1/Workflow/'' @ s) = None
           \<longrightarrow> entityExists urlOf srv h i w = (False, w))
     \<and> (\<forall>s p. toStr_opt i = Some s \<and> urlOf (''/api/v1/Workflow/'' @ s) = Some p \<longrightarrow>
          sent (snd (entityExists urlOf srv h i w)) = sent w @ [workflow_request GET p h None]
          \<and> (\<forall>e. fst (srv (workflow_request GET p h None) (remote_state w)) = Failed e
                \<longrightarrow> fst (entityExists urlOf srv h i w) = False)
          \<and> (\<forall>res. fst (srv (workflow_request GET p h None) (remote_state w)) = Answered res
                    \<and> \<not> (200 \<le> res_status res \<and> res_status res \<le> 299)
                \<longrightarrow> fst (entityExists urlOf srv h i w) = False))"
proof -
  have f: "sent (snd (findByName srv name w)) = sent w @ [lookup_by_name k]
          \<and> (\<forall>e. fst (srv (lookup_by_name k) (remote_state w)) = Failed e
                \<longrightarrow> fst (findByName srv name w) = Inl (TransportError e))
          \<and> (\<forall>res. fst (srv (lookup_by_name k) (remote_state w)) = Answered res
                    \<and> \<not> (200 \<le> res_status res \<and> res_status res \<le> 299)
                \<longrightarrow> fst (findByName srv name w) =
                      Inl (HttpError GET (rq_path (lookup_by_name k))
                             (res_status res) (res_text res)))"
    if k: "encodeURIComponent name = Inr k" for k
    unfolding findByName_snd [OF k] findByName_reply [OF k]
    by (simp add: send_sent ok_def lookup_by_name_def)
  have x: "sent (snd (entityExists urlOf srv h i w)) = sent w @ [workflow_request GET p h None]
          \<and> (\<forall>e. fst (srv (workflow_request GET p h None) (remote_state w)) = Failed e
                \<longrightarrow> fst (entityExists urlOf srv h i w) = False)
          \<and> (\<forall>res. fst (srv (workflow_request GET p h None) (remote_state w)) = Answered res
                    \<and> \<not> (200 \<le> res_status res \<and> res_status res \<le> 299)
                \<longrightarrow> fst (entityExists urlOf srv h i w) = False)"
    if c: "toStr_opt i = Some s \<and> urlOf (''/api/v1/Workflow/'' @ s) = Some p" for s p
  proof -
    from c have c1: "toStr_opt i = Some s" and c2: "urlOf (''/api/v1/Workflow/'' @ s) = Some p"
      by simp_all
    show ?thesis
      unfolding entityExists_snd [where urlOf = urlOf, OF c1 c2]
        entityExists_fst [where urlOf = urlOf, OF c1 c2]
      by (simp add: send_sent)
  qed
  show ?thesis
    apply (intro conjI)
    subgoal using findByName_Inl [of name _ srv w] by blast
    subgoal using f by blast
    subgoal using entityExists_unconverted [of i urlOf srv h w] by blast
    subgoal using entityExists_unparsed [of i _ urlOf srv h w] by blast
    subgoal using x by blast
    done
qed

theorem resolver_errors_witness:
  "sent (snd (findByName unreachable (Some (JStr ''Sales Q1'')) (start ())))
     = [lookup_by_name ''Sales%20Q1'']
   \<and> fst (findByName unreachable (Some (JStr ''Sales Q1'')) (start ()))
     = Inl (TransportError ''ECONNREFUSED'')
   \<and> findByName unreachable (Some (JObj [(''toString'', JStr ''x'')])) (start ())
     = (Inl TypeError, start ())
   \<and> entityExists as_written unreachable (EspoAuthorization (AuthString ''admin'' ''pw''))
          (Some (JObj [(''toString'', JStr ''x'')])) (start ())
     = (False, start ())"
proof -
  let ?n = "Some (JStr ''Sales Q1'')"
  let ?o = "Some (JObj [(''toString'', JStr ''x'')])"
  have k: "encodeURIComponent ?n = Inr ''Sales%20Q1''" by (simp add: js_defs)
  have e: "encodeURIComponent ?o = Inl TypeError" by (simp add: js_defs)
  have t: "toStr_opt ?o = None" by simp
  have r: "fst (unreachable (lookup_by_name ''Sales%20Q1'') (remote_state (start ())))
             = Failed ''ECONNREFUSED''"
    by (simp add: unreachable_def)
  note T = resolver_errors [where srv = unreachable and w = "start ()"]
  have a: "sent (snd (findByName unreachable ?n (start ()))) = sent (start ()) @ [lookup_by_name ''Sales%20Q1'']
           \<and> fst (findByName unreachable ?n (start ())) = Inl (TransportError ''ECONNREFUSED'')"
    using T [where name = ?n, THEN conjunct2, THEN conjunct1] k r by blast
  have b: "findByName unreachable ?o (start ()) = (Inl TypeError, start ())"
    using T [where name = ?o, THEN conjunct1] e by blast
  have c: "entityExists as_written unreachable (EspoAuthorization (AuthString ''admin'' ''pw'')) ?o
             (start ()) = (False, start ())"
    using T [where i = ?o and urlOf = as_written
               and h = "EspoAuthorization (AuthString ''admin'' ''pw'')",
             THEN conjunct2, THEN conjunct2, THEN conjunct1] t by blast
  show ?thesis
    using a b c by (simp add: start_def)
qed

section \<open>Reports are matched by name\<close>

lemma map_of_delete_prop:
  "map_of (delete_prop k fs) x = (if x = k then None else map_of fs x)"
  by (induction fs) (auto simp: delete_prop_def)

lemma sanitizeForImport_name: "map_of (sanitizeForImport fs) ''name'' = map_of fs ''name''"
  by (simp add: sanitizeForImport_def map_of_delete_prop)

lemma encode_converts: "encodeURIComponent v = Inr k \<Longrightarrow> \<exists>s. toStr_opt v = Some s"
  by (cases "toStr_opt v") (simp_all add: encodeURIComponent_def)

lemma printed_line_encoded:
  "encodeURIComponent v = Inr k \<Longrightarrow> printed_line line v w = (Inr line, w)"
  using encode_converts [of v k] by (auto simp: printed_line_def)

lemma api_write_snd:
  "snd (api srv m p (Some (JObj P)) w) =
     snd (send srv \<lparr>rq_method = m, rq_path = p, rq_headers = XApiKey, rq_body = Some (JObj P)\<rparr> w)"
  by (simp add: api_snd)

lemma upsert_unencoded:
  assumes "truthy_opt (map_of fs ''name'')" "encodeURIComponent (map_of fs ''name'') = Inl e"
  shows "upsert srv (JObj fs) w = (Inl e, w)"
  using assms by (simp add: upsert_def sanitizeForImport_name findByName_Inl)

lemma upsert_unfold:
  assumes n: "truthy_opt (map_of fs ''name'')"
    and k: "encodeURIComponent (map_of fs ''name'') = Inr k"
  shows "upsert srv (JObj fs) w =
     (let w1 = snd (send srv (lookup_by_name k) w) in
      case fst (findByName srv (map_of fs ''name'') w) of
        Inl e \<Rightarrow> (Inl e, w1)
      | Inr existing \<Rightarrow>
          if truthy_opt (get_prop existing ''id'') then
            (case toStr_opt (get_prop existing ''id'') of
               None \<Rightarrow> (Inl TypeError, w1)
             | Some i \<Rightarrow>
                 (case fst (api srv PATCH (''/api/v1/Report/'' @ i)
                              (Some (JObj (sanitizeForImport fs))) w1) of
                    Inl e \<Rightarrow> Inl e
                  | Inr y \<Rightarrow> Inr Updated,
                  snd (send srv (update_report i (sanitizeForImport fs)) w1)))
          else
            (case fst (api srv POST ''/api/v1/Report'' (Some (JObj (sanitizeForImport fs))) w1) of
               Inl e \<Rightarrow> Inl e
             | Inr y \<Rightarrow> Inr Created,
             snd (send srv (create_report (sanitizeForImport fs)) w1)))"
proof -
  let ?P = "sanitizeForImport fs"
  define W1 where "W1 = snd (send srv (lookup_by_name k) w)"
  obtain x w1 where f: "findByName srv (map_of fs ''name'') w = (x, w1)" by fastforce
  have ff: "fst (findByName srv (map_of fs ''name'') w) = x" using f by simp
  have w1: "w1 = W1"
    using findByName_snd [OF k, of srv w] f by (simp add: W1_def)
  note pl = printed_line_encoded [OF k]
  show ?thesis
  proof (cases x)
    case (Inl e)
    have "upsert srv (JObj fs) w = (Inl e, W1)"
      using n f w1 Inl by (simp add: upsert_def sanitizeForImport_name Let_def)
    then show ?thesis
      unfolding Let_def W1_def [symmetric] ff Inl by simp
  next
    case (Inr existing)
    show ?thesis
    proof (cases "truthy_opt (get_prop existing ''id'')")
      case True
      show ?thesis
      proof (cases "toStr_opt (get_prop existing ''id'')")
        case None
        have "upsert srv (JObj fs) w = (Inl TypeError, W1)"
          using n f w1 Inr True None by (simp add: upsert_def sanitizeForImport_name Let_def)
        then show ?thesis
          unfolding Let_def W1_def [symmetric] ff Inr using True None by simp
      next
        case (Some i)
        let ?pp = "''/api/v1/Report/'' @ i"
        obtain y w2 where p: "api srv PATCH ?pp (Some (JObj ?P)) W1 = (y, w2)" by fastforce
        have w2: "snd (send srv (update_report i ?P) W1) = w2"
          using api_write_snd [of srv PATCH ?pp ?P W1] p by (simp add: update_report_def)
        have u: "upsert srv (JObj fs) w =
            (case y of Inl e \<Rightarrow> (Inl e, w2) | Inr _ \<Rightarrow> (Inr Updated, w2))"
          using n f Inr True Some p w1 unfolding upsert_def Let_def sanitizeForImport_name
          by (cases y) (simp_all add: pl)
        show ?thesis
          unfolding u Let_def W1_def [symmetric] ff Inr sum.case
          using True Some p w2 by (cases y) simp_all
      qed
    next
      case False
      obtain z w3 where q: "api srv POST ''/api/v1/Report'' (Some (JObj ?P)) W1 = (z, w3)"
        by fastforce
      have w3: "snd (send srv (create_report ?P) W1) = w3"
        using api_write_snd [of srv POST "''/api/v1/Report''" ?P W1] q
        by (simp add: create_report_def)
      have u: "upsert srv (JObj fs) w =
          (case z of Inl e \<Rightarrow> (Inl e, w3) | Inr _ \<Rightarrow> (Inr Created, w3))"
        using n f Inr False q w1 unfolding upsert_def Let_def sanitizeForImport_name
        by (cases z) (simp_all add: pl)
      show ?thesis
        unfolding u Let_def W1_def [symmetric] ff Inr sum.case
        using False q w3 by (cases z) simp_all
    qed
  qed
qed

lemma upsert_sent:
  assumes n: "truthy_opt (map_of fs ''name'')"
    and k: "encodeURIComponent (map_of fs ''name'') = Inr k"
  shows "sent (snd (upsert srv (JObj fs) w)) =
           sent w @ lookup_by_name k #
             (case fst (findByName srv (map_of fs ''name'') w) of
                Inl e \<Rightarrow> []
              | Inr existing \<Rightarrow> write_report existing (sanitizeForImport fs))"
  unfolding upsert_unfold [OF n k] Let_def
  by (simp add: send_sent write_report_def split: sum.splits option.splits)

lemma delete_prop_commute: "delete_prop a (delete_prop b fs) = delete_prop b (delete_prop a fs)"
  by (auto simp: delete_prop_def intro: filter_cong)

lemma sanitize_without_id:
  "delete_prop ''id'' gs = delete_prop ''id'' fs \<Longrightarrow> sanitizeForImport gs = sanitizeForImport fs"
  by (simp add: sanitizeForImport_def)

lemma name_without:
  assumes "delete_prop k gs = delete_prop k fs" "k \<noteq> ''name''"
  shows "map_of gs ''name'' = map_of fs ''name''"
  using map_of_delete_prop [of k gs "''name''"] map_of_delete_prop [of k fs "''name''"] assms
  by simp

lemma upsert_ignores_id:
  assumes "delete_prop ''id'' gs = delete_prop ''id'' fs"
  shows "upsert srv (JObj gs) w = upsert srv (JObj fs) w"
  using sanitize_without_id [OF assms] name_without [OF assms]
  by (simp add: upsert_def)

lemma first_or_null_array:
  "get_prop j ''list'' = Some (JArr xs) \<Longrightarrow>
     first_or_null j = (case xs of [] \<Rightarrow> JNull | e # es \<Rightarrow> if truthy e then e else JNull)"
  by (cases xs) (simp_all add: first_or_null_def)

lemma first_or_null_missing:
  "get_prop j ''list'' = None \<or> get_prop j ''list'' = Some JNull \<Longrightarrow> first_or_null j = JNull"
  by (auto simp: first_or_null_def)

lemma write_report_paths:
  "map (\<lambda>r. (rq_method r, rq_path r)) (write_report x P) =
   map (\<lambda>r. (rq_method r, rq_path r)) (write_report x Q)"
  by (simp add: write_report_def update_report_def create_report_def split: option.splits)

text \<open>
  C4, as stated, fails on the code: a result list that is not empty does not always give
  a match. When its first element has a falsy \<^verbatim>\<open>id\<close> (here \<^verbatim>\<open>0\<close>), that element is
  returned and the report is created all the same; when the first element itself is
  falsy (here \<^verbatim>\<open>null\<close>), nothing is returned, whatever follows it in the list.
\<close>

theorem nonempty_list_without_match:
  "fst (findByName
          (always \<lparr>res_status = 200, res_text = [],
                   res_json = Some (JObj [(''list'', JArr [JObj [(''id'', JNum ''0'')]])])\<rparr>)
          (Some (JStr ''Sales Q1'')) (start ()))
     = Inr (JObj [(''id'', JNum ''0'')])
   \<and> map (\<lambda>r. (rq_method r, rq_path r))
       (sent (snd (upsert
          (always \<lparr>res_status = 200, res_text = [],
                   res_json = Some (JObj [(''list'', JArr [JObj [(''id'', JNum ''0'')]])])\<rparr>)
          (JObj [(''name'', JStr ''Sales Q1'')]) (start ()))))
     = [(GET, ''/api/v1/Report?maxSize=1&filters[name]=Sales%20Q1''), (POST, ''/api/v1/Report'')]
   \<and> fst (findByName
          (always \<lparr>res_status = 200, res_text = [],
                   res_json = Some (JObj [(''list'', JArr [JNull, JObj [(''id'', JStr ''r1'')]])])\<rparr>)
          (Some (JStr ''Sales Q1'')) (start ()))
     = Inr JNull
   \<and> map (\<lambda>r. (rq_method r, rq_path r))
       (sent (snd (upsert
          (always \<lparr>res_status = 200, res_text = [],
                   res_json = Some (JObj [(''list'', JArr [JNull, JObj [(''id'', JStr ''r1'')]])])\<rparr>)
          (JObj [(''name'', JStr ''Sales Q1'')]) (start ()))))
     = [(GET, ''/api/v1/Report?maxSize=1&filters[name]=Sales%20Q1''), (POST, ''/api/v1/Report'')]"
  by (simp add: client_defs always_def js_defs)

text \<open>
  C4 (amended): for a report snapshot with a name that \<^verbatim>\<open>encodeURIComponent\<close> accepts,
  \<^verbatim>\<open>upsert\<close> first makes the lookup \<^verbatim>\<open>GET /api/v1/Report?maxSize=1&filters[name]=<name>\<close>,
  the name percent-encoded. When the remote answers it with a status in 200..299 and a
  JSON body, the match is the first element of the body's \<^verbatim>\<open>list\<close> if that element is
  truthy, and there is no match if the list is empty, missing or \<^verbatim>\<open>null\<close> or its first
  element is falsy. If the match has a truthy \<^verbatim>\<open>id\<close>, the update that follows is
  addressed to that \<^verbatim>\<open>id\<close>, and when the \<^verbatim>\<open>id\<close> cannot be converted to a string,
  \<^verbatim>\<open>upsert\<close> fails with the TypeError after the lookup; in every other case what follows
  is a create. Two snapshots that differ only in \<^verbatim>\<open>id\<close> are treated alike in
  everything, and two that differ only in \<^verbatim>\<open>remoteId\<close> make their requests to the same
  addresses.
\<close>

theorem report_identity_by_name:
  fixes srv :: "'s remote"
  assumes "truthy_opt (map_of fs ''name'')"
    and "encodeURIComponent (map_of fs ''name'') = Inr k"
    and "fst (srv (lookup_by_name k) (remote_state w)) = Answered res"
    and "200 \<le> res_status res \<and> res_status res \<le> 299"
    and "res_json res = Some j"
  shows
    "fst (findByName srv (map_of fs ''name'') w) = Inr (first_or_null j)
     \<and> (\<forall>xs. get_prop j ''list'' = Some (JArr xs) \<longrightarrow>
          first_or_null j = (case xs of [] \<Rightarrow> JNull | e # es \<Rightarrow> if truthy e then e else JNull))
     \<and> (get_prop j ''list'' = None \<or> get_prop j ''list'' = Some JNull \<longrightarrow>
          first_or_null j = JNull)
     \<and> (\<forall>i t. get_prop (first_or_null j) ''id'' = Some i \<and> truthy i \<and> toStr i = Some t \<longrightarrow>
          sent (snd (upsert srv (JObj fs) w)) =
            sent w @ [lookup_by_name k, update_report t (sanitizeForImport fs)])
     \<and> (\<forall>i. get_prop (first_or_null j) ''id'' = Some i \<and> truthy i \<and> toStr i = None \<longrightarrow>
          upsert srv (JObj fs) w = (Inl TypeError, snd (send srv (lookup_by_name k) w)))
     \<and> (\<not> truthy_opt (get_prop (first_or_null j) ''id'') \<longrightarrow>
          sent (snd (upsert srv (JObj fs) w)) =
            sent w @ [lookup_by_name k, create_report (sanitizeForImport fs)])
     \<and> (\<forall>gs. delete_prop ''id'' gs = delete_prop ''id'' fs \<longrightarrow>
          upsert srv (JObj gs) w = upsert srv (JObj fs) w)
     \<and> (\<forall>gs. delete_prop ''remoteId'' gs = delete_prop ''remoteId'' fs \<longrightarrow>
          map (\<lambda>r. (rq_method r, rq_path r)) (sent (snd (upsert srv (JObj gs) w))) =
          map (\<lambda>r. (rq_method r, rq_path r)) (sent (snd (upsert srv (JObj fs) w))))"
proof -
  let ?P = "sanitizeForImport fs"
  have f: "fst (findByName srv (map_of fs ''name'') w) = Inr (first_or_null j)"
    unfolding findByName_reply [OF assms(2)] using assms(3-5) by (simp add: ok_def)
  have s: "sent (snd (upsert srv (JObj fs) w)) =
      sent w @ lookup_by_name k # write_report (first_or_null j) ?P"
    using upsert_sent [OF assms(1,2), of srv w] f by simp
  have c4: "sent (snd (upsert srv (JObj fs) w)) = sent w @ [lookup_by_name k, update_report t ?P]"
    if "get_prop (first_or_null j) ''id'' = Some i \<and> truthy i \<and> toStr i = Some t" for i t
    unfolding s using that by (simp add: write_report_def)
  have c5: "upsert srv (JObj fs) w = (Inl TypeError, snd (send srv (lookup_by_name k) w))"
    if "get_prop (first_or_null j) ''id'' = Some i \<and> truthy i \<and> toStr i = None" for i
    unfolding upsert_unfold [OF assms(1,2)] Let_def f using that by simp
  have c6: "sent (snd (upsert srv (JObj fs) w)) = sent w @ [lookup_by_name k, create_report ?P]"
    if "\<not> truthy_opt (get_prop (first_or_null j) ''id'')"
    unfolding s using that by (simp add: write_report_def)
  have c8: "map (\<lambda>r. (rq_method r, rq_path r)) (sent (snd (upsert srv (JObj gs) w))) =
        map (\<lambda>r. (rq_method r, rq_path r)) (sent (snd (upsert srv (JObj fs) w)))"
    if g: "delete_prop ''remoteId'' gs = delete_prop ''remoteId'' fs" for gs
  proof -
    have n: "map_of gs ''name'' = map_of fs ''name''"
      using name_without [OF g] by simp
    have tg: "truthy_opt (map_of gs ''name'')" using assms(1) n by simp
    have kg: "encodeURIComponent (map_of gs ''name'') = Inr k" using assms(2) n by simp
    have "sent (snd (upsert srv (JObj gs) w)) =
      sent w @ lookup_by_name k # write_report (first_or_null j) (sanitizeForImport gs)"
      using upsert_sent [OF tg kg, of srv w] f n by simp
    then show ?thesis
      unfolding s using write_report_paths [of "first_or_null j" "sanitizeForImport gs" ?P]
      by simp
  qed
  show ?thesis
    apply (intro conjI)
    subgoal by (rule f)
    subgoal using first_or_null_array [of j] by blast
    subgoal using first_or_null_missing [of j] by blast
    subgoal using c4 by blast
    subgoal using c5 by blast
    subgoal using c6 by blast
    subgoal using upsert_ignores_id [of _ fs srv w] by blast
    subgoal using c8 by blast
    done
qed

theorem report_identity_by_name_witness:
  "fst (findByName espo (Some (JStr ''Sales Q1''))
          (start \<lparr>reports = [(''r1'', [''name'' \<mapsto> JStr ''Sales Q1''])], workflows = []\<rparr>))
     = Inr (JObj [(''id'', JStr ''r1'')])
   \<and> sent (snd (upsert espo (JObj [(''id'', JStr ''x9''), (''name'', JStr ''Sales Q1'')])
          (start \<lparr>reports = [(''r1'', [''name'' \<mapsto> JStr ''Sales Q1''])], workflows = []\<rparr>)))
     = [\<lparr>rq_method = GET, rq_path = ''/api/v1/Report?maxSize=1&filters[name]=Sales%20Q1'',
         rq_headers = XApiKey, rq_body = None\<rparr>,
        \<lparr>rq_method = PATCH, rq_path = ''/api/v1/Report/r1'',
         rq_headers = XApiKey, rq_body = Some (JObj [(''name'', JStr ''Sales Q1'')])\<rparr>]"
proof -
  let ?T = "\<lparr>reports = [(''r1'', [''name'' \<mapsto> JStr ''Sales Q1''])], workflows = []\<rparr>"
  let ?fs = "[(''id'', JStr ''x9''), (''name'', JStr ''Sales Q1'')]"
  let ?j = "JObj [(''list'', JArr [JObj [(''id'', JStr ''r1'')]])]"
  let ?res = "\<lparr>res_status = 200, res_text = [], res_json = Some ?j\<rparr>"
  have n: "map_of ?fs ''name'' = Some (JStr ''Sales Q1'')" by simp
  have h1: "truthy_opt (map_of ?fs ''name'')" by simp
  have h2: "encodeURIComponent (map_of ?fs ''name'') = Inr ''Sales%20Q1''"
    unfolding n by (simp add: js_defs)
  have h3: "fst (espo (lookup_by_name ''Sales%20Q1'') (remote_state (start ?T))) = Answered ?res"
    by (simp add: espo_defs start_def lookup_by_name_def js_defs)
  have h4: "200 \<le> res_status ?res \<and> res_status ?res \<le> 299" by simp
  have h5: "res_json ?res = Some ?j" by simp
  note T = report_identity_by_name
      [where fs = ?fs and srv = espo and w = "start ?T" and res = ?res and j = ?j
         and k = "''Sales%20Q1''", OF h1 h2 h3 h4 h5]
  have fn: "first_or_null ?j = JObj [(''id'', JStr ''r1'')]" by (simp add: first_or_null_def)
  have l: "get_prop (first_or_null ?j) ''id'' = Some (JStr ''r1'') \<and> truthy (JStr ''r1'')
           \<and> toStr (JStr ''r1'') = Some ''r1''"
    unfolding fn by simp
  have a: "fst (findByName espo (map_of ?fs ''name'') (start ?T)) = Inr (first_or_null ?j)"
    using T [THEN conjunct1] .
  have b: "sent (snd (upsert espo (JObj ?fs) (start ?T))) =
            sent (start ?T) @ [lookup_by_name ''Sales%20Q1'', update_report ''r1'' (sanitizeForImport ?fs)]"
    using T [THEN conjunct2, THEN conjunct2, THEN conjunct2, THEN conjunct1] l by blast
  show ?thesis
    using a b unfolding n fn
    by (simp add: start_def lookup_by_name_def update_report_def js_defs)
qed

section \<open>A report needs a name\<close>

lemma api_not_MissingName: "fst (api srv m p b w) \<noteq> Inl MissingName"
  unfolding api_fst by (simp split: reply.splits option.splits)

lemma encode_not_MissingName: "encodeURIComponent v \<noteq> Inl MissingName"
  by (simp add: encodeURIComponent_def split: option.splits)

lemma findByName_not_MissingName: "fst (findByName srv n w) \<noteq> Inl MissingName"
proof (cases "encodeURIComponent n")
  case (Inl e)
  then show ?thesis using encode_not_MissingName [of n] by (auto simp: findByName_Inl)
next
  case (Inr k)
  let ?p = "''/api/v1/Report?maxSize=1&filters[name]='' @ k"
  show ?thesis
    unfolding findByName_fst [OF Inr]
    using api_not_MissingName [of srv GET ?p None w]
    by (cases "fst (api srv GET ?p None w)") simp_all
qed

lemma name_only_on_objects:
  "truthy_opt (get_prop report ''name'') \<Longrightarrow> \<exists>fs. report = JObj fs \<and> truthy_opt (map_of fs ''name'')"
  by (cases report) simp_all

lemma upsert_not_MissingName:
  assumes "truthy_opt (map_of fs ''name'')"
  shows "fst (upsert srv (JObj fs) w) \<noteq> Inl MissingName"
proof (cases "encodeURIComponent (map_of fs ''name'')")
  case (Inl e)
  then show ?thesis
    using upsert_unencoded [OF assms Inl, of srv w] encode_not_MissingName [of "map_of fs ''name''"]
    by auto
next
  case (Inr k)
  define W1 where "W1 = snd (send srv (lookup_by_name k) w)"
  show ?thesis
    unfolding upsert_unfold [OF assms Inr] Let_def W1_def [symmetric]
    using findByName_not_MissingName [of srv "map_of fs ''name''" w]
      api_not_MissingName [of srv PATCH _ "Some (JObj (sanitizeForImport fs))" W1]
      api_not_MissingName [of srv POST "''/api/v1/Report''" "Some (JObj (sanitizeForImport fs))" W1]
    by (auto split: sum.splits option.splits)
qed

text \<open>
  C6, as stated, fails on the code: the workflow import checks no name. A workflow file
  without one is looked up by its \<^verbatim>\<open>id\<close> and created.
\<close>

theorem workflow_without_name_is_imported:
  "fst (main_workflows as_written espo
          (Some \<lparr>args_user = Some ''admin'', args_password = Some ''pw''\<rparr>)
          (Entries [(''w1.json'', Some (JObj [(''id'', JStr ''w1''), (''isActive'', JBool True)]))])
          (start \<lparr>reports = [], workflows = []\<rparr>))
     = Summary \<lparr>created = 1, updated = 0, errors = 0\<rparr>
   \<and> map (\<lambda>r. (rq_method r, rq_path r, rq_body r))
        (sent (snd (main_workflows as_written espo
          (Some \<lparr>args_user = Some ''admin'', args_password = Some ''pw''\<rparr>)
          (Entries [(''w1.json'', Some (JObj [(''id'', JStr ''w1''), (''isActive'', JBool True)]))])
          (start \<lparr>reports = [], workflows = []\<rparr>))))
     = [(GET, ''/api/v1/App/user'', None),
        (GET, ''/api/v1/Workflow/w1'', None),
        (POST, ''/api/v1/Workflow'', Some (JObj [(''id'', JStr ''w1''), (''isActive'', JBool True)]))]"
  by (simp add: client_defs espo_defs js_defs)

text \<open>
  C6 (amended): in the report import, \<^verbatim>\<open>upsert\<close> fails with the missing-name error
  exactly when the snapshot's \<^verbatim>\<open>name\<close> is missing or empty (or otherwise falsy), and it
  does so before sanitizing or contacting the remote: nothing is requested and the remote
  is as it was. With a name that \<^verbatim>\<open>encodeURIComponent\<close> accepts, the first thing it
  requests is the lookup by that name; with a name that cannot be converted to a string
  or encoded, it fails with that TypeError or URIError and requests nothing. The workflow
  import does not validate the name.
\<close>

theorem upsert_requires_name:
  fixes srv :: "'s remote"
  shows "(\<not> truthy_opt (get_prop report ''name'') \<longrightarrow> upsert srv report w = (Inl MissingName, w))
       \<and> (truthy_opt (get_prop report ''name'') \<longrightarrow>
            fst (upsert srv report w) \<noteq> Inl MissingName
            \<and> (\<forall>e. encodeURIComponent (get_prop report ''name'') = Inl e \<longrightarrow>
                  upsert srv report w = (Inl e, w))
            \<and> (\<forall>k. encodeURIComponent (get_prop report ''name'') = Inr k \<longrightarrow>
                  take (Suc (length (sent w))) (sent (snd (upsert srv report w)))
                    = sent w @ [lookup_by_name k]))"
proof -
  have a: "upsert srv report w = (Inl MissingName, w)" if "\<not> truthy_opt (get_prop report ''name'')"
    using that by (simp add: upsert_def)
  have b: "fst (upsert srv report w) \<noteq> Inl MissingName
            \<and> (\<forall>e. encodeURIComponent (get_prop report ''name'') = Inl e \<longrightarrow>
                  upsert srv report w = (Inl e, w))
            \<and> (\<forall>k. encodeURIComponent (get_prop report ''name'') = Inr k \<longrightarrow>
                  take (Suc (length (sent w))) (sent (snd (upsert srv report w)))
                    = sent w @ [lookup_by_name k])"
    if t: "truthy_opt (get_prop report ''name'')"
  proof -
    from name_only_on_objects [OF t] obtain fs where
      r: "report = JObj fs" and n: "truthy_opt (map_of fs ''name'')" by blast
    have 1: "fst (upsert srv report w) \<noteq> Inl MissingName"
      unfolding r using upsert_not_MissingName [OF n] .
    have 2: "upsert srv report w = (Inl e, w)"
      if "encodeURIComponent (get_prop report ''name'') = Inl e" for e
      using that upsert_unencoded [OF n, of e srv w] r by simp
    have 3: "take (Suc (length (sent w))) (sent (snd (upsert srv report w)))
                    = sent w @ [lookup_by_name k]"
      if "encodeURIComponent (get_prop report ''name'') = Inr k" for k
    proof -
      from that have k: "encodeURIComponent (map_of fs ''name'') = Inr k" using r by simp
      show ?thesis unfolding r upsert_sent [OF n k] by simp
    qed
    show ?thesis using 1 2 3 by blast
  qed
  show ?thesis using a b by blast
qed

theorem upsert_requires_name_witness:
  "upsert espo (JObj [(''id'', JStr ''r1''), (''name'', JStr '''')]) (start \<lparr>reports = [], workflows = []\<rparr>)
     = (Inl MissingName, start \<lparr>reports = [], workflows = []\<rparr>)
   \<and> upsert espo (JObj [(''id'', JStr ''r1'')]) (start \<lparr>reports = [], workflows = []\<rparr>)
     = (Inl MissingName, start \<lparr>reports = [], workflows = []\<rparr>)
   \<and> fst (upsert espo (JObj [(''name'', JStr ''Sales Q1'')]) (start \<lparr>reports = [], workflows = []\<rparr>))
     \<noteq> Inl MissingName
   \<and> upsert espo (JObj [(''name'', JObj [(''toString'', JStr ''x'')])])
       (start \<lparr>reports = [], workflows = []\<rparr>)
     = (Inl TypeError, start \<lparr>reports = [], workflows = []\<rparr>)"
proof -
  let ?w = "start \<lparr>reports = [], workflows = []\<rparr>"
  let ?o = "JObj [(''name'', JObj [(''toString'', JStr ''x'')])]"
  have e: "encodeURIComponent (get_prop ?o ''name'') = Inl TypeError"
    by (simp add: js_defs)
  have t: "truthy_opt (get_prop ?o ''name'')" by simp
  have d: "upsert espo ?o ?w = (Inl TypeError, ?w)"
    using upsert_requires_name [of ?o espo ?w, THEN conjunct2] t e by blast
  show ?thesis
    using upsert_requires_name [of "JObj [(''id'', JStr ''r1''), (''name'', JStr '''')]" espo ?w]
      upsert_requires_name [of "JObj [(''id'', JStr ''r1'')]" espo ?w]
      upsert_requires_name [of "JObj [(''name'', JStr ''Sales Q1'')]" espo ?w]
      d
    by simp
qed

section \<open>What the report import sends is sanitized\<close>

lemma portable_lookup: "portable (lookup_by_name k)"
  by (simp add: portable_def lookup_by_name_def)

lemma portable_write: "rq \<in> set (write_report e (sanitizeForImport fs)) \<Longrightarrow> portable rq"
  by (auto simp: portable_def write_report_def update_report_def create_report_def env_bound_def
      sanitizeForImport_filter split: if_splits option.splits)

lemma body_lookup: "rq_body (lookup_by_name k) = None"
  by (simp add: lookup_by_name_def)

lemma body_write: "rq \<in> set (write_report e p) \<Longrightarrow> rq_body rq = Some (JObj p)"
  by (auto simp: write_report_def update_report_def create_report_def
      split: if_splits option.splits)

lemma upsert_new_requests:
  "\<exists>new. sent (snd (upsert srv report w)) = sent w @ new
         \<and> (\<forall>rq \<in> set new. portable rq)
         \<and> (\<forall>fs. report = JObj fs \<longrightarrow>
               (\<forall>rq \<in> set new. rq_body rq = None \<or> rq_body rq = Some (JObj (sanitizeForImport fs))))"
proof (cases "truthy_opt (get_prop report ''name'')")
  case False
  then show ?thesis by (simp add: upsert_def)
next
  case True
  from name_only_on_objects [OF True] obtain fs where
    r: "report = JObj fs" and n: "truthy_opt (map_of fs ''name'')" by blast
  show ?thesis
  proof (cases "encodeURIComponent (map_of fs ''name'')")
    case (Inl e)
    show ?thesis unfolding r upsert_unencoded [OF n Inl] by simp
  next
    case (Inr k)
    show ?thesis
      unfolding r upsert_sent [OF n Inr]
      by (cases "fst (findByName srv (map_of fs ''name'') w)")
         (auto simp: portable_lookup portable_write body_lookup body_write)
  qed
qed

lemma import_reports_new_requests:
  "\<exists>new. sent (snd (import_reports srv files printed w)) = sent w @ new
         \<and> (\<forall>rq \<in> set new. portable rq)"
proof (induction files arbitrary: printed w)
  case Nil
  then show ?case by simp
next
  case (Cons f files)
  obtain name content where f: "f = (name, content)" by (cases f)
  show ?case
  proof (cases content)
    case None
    then show ?thesis using f by simp
  next
    case (Some report)
    obtain x w1 where u: "upsert srv report w = (x, w1)" by fastforce
    from upsert_new_requests [of srv report w] u obtain new1 where
      n1: "sent w1 = sent w @ new1" "\<forall>rq \<in> set new1. portable rq" by auto
    show ?thesis
    proof (cases x)
      case (Inl e)
      then show ?thesis using f Some u n1 by simp
    next
      case (Inr line)
      from Cons.IH [of "printed @ [line]" w1] obtain new2 where
        n2: "sent (snd (import_reports srv files (printed @ [line]) w1)) = sent w1 @ new2"
          "\<forall>rq \<in> set new2. portable rq" by blast
      have "sent (snd (import_reports srv (f # files) printed w)) = sent w @ (new1 @ new2)"
        using f Some u Inr n1 n2 by simp
      moreover have "\<forall>rq \<in> set (new1 @ new2). portable rq" using n1 n2 by auto
      ultimately show ?thesis by blast
    qed
  qed
qed

text \<open>
  C7, as stated, fails on the code: the workflow import sends each file as it was read,
  \<^verbatim>\<open>createdAt\<close> and \<^verbatim>\<open>modifiedById\<close> included.
\<close>

theorem workflow_import_sends_createdAt:
  "map rq_body
     (sent (snd (main_workflows as_written espo
        (Some \<lparr>args_user = Some ''admin'', args_password = Some ''pw''\<rparr>)
        (Entries [(''w7.json'', Some (JObj [(''id'', JStr ''w7''), (''name'', JStr ''Notify owner''),
                                            (''createdAt'', JStr ''2024-01-01 10:00:00''),
                                            (''modifiedById'', JStr ''u1'')]))])
        (start \<lparr>reports = [], workflows = []\<rparr>))))
   = [None, None,
      Some (JObj [(''id'', JStr ''w7''), (''name'', JStr ''Notify owner''),
                  (''createdAt'', JStr ''2024-01-01 10:00:00''), (''modifiedById'', JStr ''u1'')])]"
  by (simp add: client_defs espo_defs js_defs)

text \<open>
  C7 (amended): in the report import, whatever the files contain and whatever the remote
  answers, every request of a run is portable: the body of every create or update is an
  object without \<^verbatim>\<open>createdAt\<close>, \<^verbatim>\<open>modifiedAt\<close>, \<^verbatim>\<open>createdById\<close>, \<^verbatim>\<open>modifiedById\<close>; and
  every body \<^verbatim>\<open>upsert\<close> sends for a snapshot is that snapshot sanitized once. The
  workflow import sends its files unchanged.
\<close>

theorem report_import_sends_sanitized_bodies:
  fixes srv :: "'s remote"
  shows "(\<exists>new. sent (snd (main_reports srv REPORTS_DIR w)) = sent w @ new
            \<and> (\<forall>rq \<in> set new. portable rq))
       \<and> (\<exists>new. sent (snd (upsert srv (JObj fs) w)) = sent w @ new
            \<and> (\<forall>rq \<in> set new. rq_body rq = None
                               \<or> rq_body rq = Some (JObj (sanitizeForImport fs))))"
proof -
  have "\<exists>new. sent (snd (main_reports srv REPORTS_DIR w)) = sent w @ new
            \<and> (\<forall>rq \<in> set new. portable rq)"
    using import_reports_new_requests [of srv _ "[]" w]
    by (cases REPORTS_DIR) (simp_all add: main_reports_def)
  moreover have "\<exists>new. sent (snd (upsert srv (JObj fs) w)) = sent w @ new
            \<and> (\<forall>rq \<in> set new. rq_body rq = None
                               \<or> rq_body rq = Some (JObj (sanitizeForImport fs)))"
    using upsert_new_requests [of srv "JObj fs" w] by blast
  ultimately show ?thesis by blast
qed

theorem report_import_sends_sanitized_bodies_witness:
  "map rq_body
     (sent (snd (main_reports espo
        (Some [(''sales.json'', Some (JObj [(''id'', JStr ''r1''), (''name'', JStr ''Sales Q1''),
                                            (''createdAt'', JStr ''2024-01-01 10:00:00''),
                                            (''modifiedById'', JStr ''u1'')]))])
        (start \<lparr>reports = [], workflows = []\<rparr>))))
   = [None, Some (JObj [(''name'', JStr ''Sales Q1'')])]
   \<and> portable \<lparr>rq_method = POST, rq_path = ''/api/v1/Report'', rq_headers = XApiKey,
                rq_body = Some (JObj [(''name'', JStr ''Sales Q1'')])\<rparr>"
proof -
  let ?dir = "Some [(''sales.json'', Some (JObj [(''id'', JStr ''r1''), (''name'', JStr ''Sales Q1''),
                                            (''createdAt'', JStr ''2024-01-01 10:00:00''),
                                            (''modifiedById'', JStr ''u1'')]))]"
  let ?w = "start \<lparr>reports = [], workflows = []\<rparr>"
  have e: "sent (snd (main_reports espo ?dir ?w)) =
      [lookup_by_name ''Sales%20Q1'',
       \<lparr>rq_method = POST, rq_path = ''/api/v1/Report'', rq_headers = XApiKey,
                rq_body = Some (JObj [(''name'', JStr ''Sales Q1'')])\<rparr>]"
    by (simp add: client_defs espo_defs js_defs lookup_by_name_def)
  from conjunct1 [OF report_import_sends_sanitized_bodies [where srv = espo and REPORTS_DIR = ?dir and w = ?w]]
  obtain new where "sent (snd (main_reports espo ?dir ?w)) = sent ?w @ new" "\<forall>rq \<in> set new. portable rq"
    by blast
  then have "portable \<lparr>rq_method = POST, rq_path = ''/api/v1/Report'', rq_headers = XApiKey,
                rq_body = Some (JObj [(''name'', JStr ''Sales Q1'')])\<rparr>"
    unfolding e by (auto simp: start_def)
  then show ?thesis unfolding e by (simp add: lookup_by_name_def)
qed

section \<open>Files whose name starts with an underscore\<close>

text \<open>
  C9: the workflow import leaves out the files whose name starts with \<^verbatim>\<open>_\<close>. The report
  import does not, against the script's documentation, which says that manifests are not
  imported: \<^verbatim>\<open>_manifest.json\<close> is read, parsed and handed to \<^verbatim>\<open>upsert\<close>, which fails on
  it for want of a name and ends the run before any report is imported.
\<close>

theorem report_import_reads_manifest:
  "report_files [(''_manifest.json'', Some (JObj [(''exportedAt'', JStr ''2024-01-01T10:00:00Z''), (''count'', JNum ''1'')])),
                 (''sales.json'', Some (JObj [(''name'', JStr ''Sales Q1'')]))]
     = [(''_manifest.json'', Some (JObj [(''exportedAt'', JStr ''2024-01-01T10:00:00Z''), (''count'', JNum ''1'')])),
        (''sales.json'', Some (JObj [(''name'', JStr ''Sales Q1'')]))]
   \<and> main_reports espo
        (Some [(''_manifest.json'', Some (JObj [(''exportedAt'', JStr ''2024-01-01T10:00:00Z''), (''count'', JNum ''1'')])),
               (''sales.json'', Some (JObj [(''name'', JStr ''Sales Q1'')]))])
        (start \<lparr>reports = [], workflows = []\<rparr>)
     = ((Some MissingName, []), start \<lparr>reports = [], workflows = []\<rparr>)
   \<and> workflow_files [(''_manifest.json'', Some (JObj [(''exportedAt'', JStr ''2024-01-01T10:00:00Z''), (''count'', JNum ''1'')])),
                 (''sales.json'', Some (JObj [(''name'', JStr ''Sales Q1'')]))]
     = [(''sales.json'', Some (JObj [(''name'', JStr ''Sales Q1'')]))]"
  by (simp add: client_defs espo_defs js_defs)

section \<open>A workflow file without an identifier\<close>

lemma sel_id_key: "sel id_key i es = (if i \<in> fst ` set es then Some i else None)"
proof (induction es)
  case Nil
  then show ?case by (simp add: sel_def)
next
  case (Cons e es)
  then show ?case
    by (cases "fst e = i") (simp_all add: sel_def id_key_def)
qed

lemma longest_bound: "e \<in> set es \<Longrightarrow> length (fst e) \<le> foldr (\<lambda>e n. max (length (fst e)) n) es 0"
  by (induction es) auto

lemma fresh_id_fresh: "fresh_id es \<notin> fst ` set es"
proof
  assume "fresh_id es \<in> fst ` set es"
  then obtain e where e: "e \<in> set es" "fst e = fresh_id es" by auto
  from longest_bound [OF e(1)] show False
    unfolding e(2) by (simp add: fresh_id_def)
qed

lemma fresh_id_not_undefined: "fresh_id es \<noteq> ''undefined''"
  by (simp add: fresh_id_def)

lemma fresh_id_not_empty: "fresh_id es \<noteq> []"
  by (simp add: fresh_id_def)

lemma import_workflow_unfold:
  assumes "workflowData \<noteq> JNull"
  shows "import_workflow urlOf srv h (Some workflowData) t w =
     (let workflowId = get_prop workflowData ''id'';
          w1 = snd (entityExists urlOf srv h workflowId w) in
      if fst (entityExists urlOf srv h workflowId w) then
        (case toStr_opt workflowId of
           None \<Rightarrow> (t\<lparr>errors := errors t + 1\<rparr>, w1)
         | Some i \<Rightarrow>
             (case fst (apiRequest urlOf srv (''/api/v1/Workflow/'' @ i) h PUT (Some workflowData) w1) of
                Inl e \<Rightarrow> t\<lparr>errors := errors t + 1\<rparr>
              | Inr j \<Rightarrow> logged (workflowName workflowData) (t\<lparr>updated := updated t + 1\<rparr>) t,
              snd (apiRequest urlOf srv (''/api/v1/Workflow/'' @ i) h PUT (Some workflowData) w1)))
      else
        (case fst (apiRequest urlOf srv ''/api/v1/Workflow'' h POST (Some workflowData) w1) of
           Inl e \<Rightarrow> t\<lparr>errors := errors t + 1\<rparr>
         | Inr j \<Rightarrow> logged (workflowName workflowData) (t\<lparr>created := created t + 1\<rparr>) t,
         snd (apiRequest urlOf srv ''/api/v1/Workflow'' h POST (Some workflowData) w1)))"
proof -
  let ?i = "get_prop workflowData ''id''"
  obtain b w1 where e: "entityExists urlOf srv h ?i w = (b, w1)" by fastforce
  obtain z w3 where q: "apiRequest urlOf srv ''/api/v1/Workflow'' h POST (Some workflowData) w1 = (z, w3)"
    by fastforce
  have c: "import_workflow urlOf srv h (Some workflowData) t w =
      (case entityExists urlOf srv h ?i w of
             (True, w) \<Rightarrow>
               (case toStr_opt ?i of
                  None \<Rightarrow> (t\<lparr>errors := errors t + 1\<rparr>, w)
                | Some i \<Rightarrow>
                    (case apiRequest urlOf srv (''/api/v1/Workflow/'' @ i) h
                            PUT (Some workflowData) w of
                       (Inl e, w) \<Rightarrow> (t\<lparr>errors := errors t + 1\<rparr>, w)
                     | (Inr _, w) \<Rightarrow>
                         (logged (workflowName workflowData) (t\<lparr>updated := updated t + 1\<rparr>) t, w)))
           | (False, w) \<Rightarrow>
               (case apiRequest urlOf srv ''/api/v1/Workflow'' h POST (Some workflowData) w of
                  (Inl e, w) \<Rightarrow> (t\<lparr>errors := errors t + 1\<rparr>, w)
                | (Inr _, w) \<Rightarrow>
                    (logged (workflowName workflowData) (t\<lparr>created := created t + 1\<rparr>) t, w)))"
    using assms
    by (cases workflowData; hypsubst_thin)
       (simp_all only: import_workflow_def option.case json.case Let_def simp_thms)
  show ?thesis
  proof (cases b)
    case False
    show ?thesis
      unfolding c Let_def e using False q by (cases z) simp_all
  next
    case True
    show ?thesis
    proof (cases "toStr_opt ?i")
      case None
      show ?thesis unfolding c Let_def e using True None by simp
    next
      case (Some i)
      obtain y w2 where p: "apiRequest urlOf srv (''/api/v1/Workflow/'' @ i) h PUT (Some workflowData) w1 = (y, w2)"
        by fastforce
      show ?thesis
        unfolding c Let_def e using True Some p by (cases y) simp_all
    qed
  qed
qed

lemma not_a_lookup:
  "addressed ''/api/v1/Report?maxSize=1&filters[name]='' (''/api/v1/Workflow/'' @ i) = None"
  by (simp add: addressed_def)

lemma espo_exists:
  assumes "percent_decode i = Some j"
  shows "espo (workflow_request GET (''/api/v1/Workflow/'' @ i) h None) s =
     (case sel id_key j (workflows s) of
        Some x \<Rightarrow> answer 200 (found x) | None \<Rightarrow> answer 404 JNull, s)"
proof -
  have "espo_get (''/api/v1/Workflow/'' @ i) s =
      (case sel id_key j (workflows s) of
        Some x \<Rightarrow> answer 200 (found x) | None \<Rightarrow> answer 404 JNull)"
    unfolding espo_get_def not_a_lookup addressed_append assms by simp
  then show ?thesis
    by (simp add: espo_def workflow_request_def)
qed

lemma espo_create_workflow:
  assumes "map_of fs ''id'' = None"
  shows "espo (workflow_request POST ''/api/v1/Workflow'' h (Some (JObj fs))) s =
           (answer 200 (found (fresh_id (workflows s))),
            s\<lparr>workflows := workflows s @ [(fresh_id (workflows s), map_of fs)]\<rparr>)"
  using assms fresh_id_fresh [of "workflows s"]
  by (simp add: espo_def workflow_request_def espo_create_def new_id_def Let_def)

lemma espo_creates_idless_workflow:
  assumes "map_of fs ''id'' = None"
    and "sel id_key ''undefined'' (workflows (remote_state v)) = None"
    and "urlOf ''/api/v1/Workflow/undefined'' = Some ''/api/v1/Workflow/undefined''"
    and "urlOf ''/api/v1/Workflow'' = Some ''/api/v1/Workflow''"
    and "toStr (workflowName (JObj fs)) \<noteq> None"
  shows "fst (import_workflow urlOf espo h (Some (JObj fs)) t v) = t\<lparr>created := created t + 1\<rparr>
       \<and> workflows (remote_state (snd (import_workflow urlOf espo h (Some (JObj fs)) t v)))
           = workflows (remote_state v) @ [(fresh_id (workflows (remote_state v)), map_of fs)]
       \<and> sel id_key ''undefined''
            (workflows (remote_state (snd (import_workflow urlOf espo h (Some (JObj fs)) t v)))) = None"
proof -
  let ?s = "remote_state v"
  let ?u = "''/api/v1/Workflow/undefined''"
  define W1 where "W1 = snd (entityExists urlOf espo h None v)"
  have ts: "toStr_opt None = Some ''undefined''" by simp
  have u': "urlOf (''/api/v1/Workflow/'' @ ''undefined'') = Some (''/api/v1/Workflow/'' @ ''undefined'')"
    using assms(3) by simp
  have dc: "percent_decode ''undefined'' = Some ''undefined''" by simp
  have g: "espo (workflow_request GET (''/api/v1/Workflow/'' @ ''undefined'') h None) ?s
      = (answer 404 JNull, ?s)"
    unfolding espo_exists [OF dc] using assms(2) by simp
  have s1: "remote_state W1 = ?s"
    unfolding W1_def entityExists_snd [where urlOf = urlOf, OF ts u'] send_state g by simp
  have ex: "fst (entityExists urlOf espo h None v) = False"
    unfolding entityExists_fst [where urlOf = urlOf, OF ts u'] g by (simp add: answer_def)
  have c: "espo (workflow_request POST ''/api/v1/Workflow'' h (Some (JObj fs))) ?s =
           (answer 200 (found (fresh_id (workflows ?s))),
            ?s\<lparr>workflows := workflows ?s @ [(fresh_id (workflows ?s), map_of fs)]\<rparr>)"
    using espo_create_workflow [OF assms(1)] .
  have p: "fst (apiRequest urlOf espo ''/api/v1/Workflow'' h POST (Some (JObj fs)) W1)
      = Inr (found (fresh_id (workflows ?s)))"
    unfolding apiRequest_fst [where urlOf = urlOf, OF assms(4)] s1 c by (simp add: answer_def)
  have st: "remote_state (snd (apiRequest urlOf espo ''/api/v1/Workflow'' h POST (Some (JObj fs)) W1)) =
      ?s\<lparr>workflows := workflows ?s @ [(fresh_id (workflows ?s), map_of fs)]\<rparr>"
    unfolding apiRequest_snd [where urlOf = urlOf, OF assms(4)] send_state s1 c by simp
  have lg: "logged (workflowName (JObj fs)) x t = x" for x
    using assms(5) by (auto simp: logged_def)
  have nn: "JObj fs \<noteq> JNull" by simp
  have gp: "get_prop (JObj fs) ''id'' = None" using assms(1) by simp
  have i: "import_workflow urlOf espo h (Some (JObj fs)) t v =
      (t\<lparr>created := created t + 1\<rparr>,
       snd (apiRequest urlOf espo ''/api/v1/Workflow'' h POST (Some (JObj fs)) W1))"
    unfolding import_workflow_unfold [OF nn] gp Let_def W1_def [symmetric] ex p
    by (simp add: lg)
  have u: "sel id_key ''undefined'' (workflows ?s @ [(fresh_id (workflows ?s), map_of fs)]) = None"
    using assms(2) fresh_id_not_undefined [of "workflows ?s"]
    by (auto simp: sel_id_key split: if_splits)
  show ?thesis
    unfolding i using st u by simp
qed

text \<open>
  C10, as stated, fails on the code: the existence check for a workflow file without an
  \<^verbatim>\<open>id\<close> asks for the identifier \<^verbatim>\<open>undefined\<close>, and a remote that holds a workflow under
  that identifier answers it; the file is then sent as an update and counted as updated.
  And where the check returns false, the file is not always counted as created: when its
  name cannot be printed, it is created on the remote and counted as failed.
\<close>

theorem workflow_without_id_is_updated:
  "fst (main_workflows as_written espo
          (Some \<lparr>args_user = Some ''admin'', args_password = Some ''pw''\<rparr>)
          (Entries [(''notify.json'', Some (JObj [(''name'', JStr ''Notify owner'')]))])
          (start \<lparr>reports = [], workflows = [(''undefined'', [''name'' \<mapsto> JStr ''Old''])]\<rparr>))
     = Summary \<lparr>created = 0, updated = 1, errors = 0\<rparr>
   \<and> map (\<lambda>r. (rq_method r, rq_path r))
        (sent (snd (main_workflows as_written espo
          (Some \<lparr>args_user = Some ''admin'', args_password = Some ''pw''\<rparr>)
          (Entries [(''notify.json'', Some (JObj [(''name'', JStr ''Notify owner'')]))])
          (start \<lparr>reports = [], workflows = [(''undefined'', [''name'' \<mapsto> JStr ''Old''])]\<rparr>))))
     = [(GET, ''/api/v1/App/user''), (GET, ''/api/v1/Workflow/undefined''),
        (PUT, ''/api/v1/Workflow/undefined'')]
   \<and> fst (main_workflows as_written espo
          (Some \<lparr>args_user = Some ''admin'', args_password = Some ''pw''\<rparr>)
          (Entries [(''notify.json'', Some (JObj [(''name'', JObj [(''toString'', JStr ''x'')])]))])
          (start \<lparr>reports = [], workflows = []\<rparr>))
     = Summary \<lparr>created = 0, updated = 0, errors = 1\<rparr>
   \<and> map fst (workflows (remote_state (snd (main_workflows as_written espo
          (Some \<lparr>args_user = Some ''admin'', args_password = Some ''pw''\<rparr>)
          (Entries [(''notify.json'', Some (JObj [(''name'', JObj [(''toString'', JStr ''x'')])]))])
          (start \<lparr>reports = [], workflows = []\<rparr>)))))
     = [''0'']"
  by (simp add: client_defs espo_defs js_defs)

text \<open>
  C10 (amended): for a workflow snapshot without an \<^verbatim>\<open>id\<close>, the existence check asks
  for \<^verbatim>\<open>/api/v1/Workflow/undefined\<close>, as the URL parser renders it, and returns true
  exactly when the remote answers that read with a status in 200..299 and a body other
  than \<^verbatim>\<open>null\<close>. When it returns false, the file is sent as a create, and counted as
  created when the create succeeds and the log line can print the name, as failed
  otherwise, never as updated. When it returns true, the file is sent as an update to that
  address, and counted as updated or as failed, never as created. Against the remote
  modelled above, as long as it holds no workflow under the identifier \<^verbatim>\<open>undefined\<close>, a
  file whose name can be printed is created on every run: each run adds one more record
  under a fresh identifier, none under \<^verbatim>\<open>undefined\<close>, so the next run finds the same.
\<close>

theorem idless_workflow_outcome:
  fixes srv :: "'s remote"
  assumes "workflowData \<noteq> JNull"
    and "get_prop workflowData ''id'' = None"
  shows
    "toStr_opt (get_prop workflowData ''id'') = Some ''undefined''
     \<and> (\<forall>p. urlOf ''/api/v1/Workflow/undefined'' = Some p \<longrightarrow>
          sent (snd (entityExists urlOf srv h (get_prop workflowData ''id'') w))
            = sent w @ [workflow_request GET p h None]
          \<and> fst (entityExists urlOf srv h (get_prop workflowData ''id'') w) =
              (case fst (srv (workflow_request GET p h None) (remote_state w)) of
                 Failed e \<Rightarrow> False
               | Answered res \<Rightarrow>
                   200 \<le> res_status res \<and> res_status res < 300 \<and> res_json res \<noteq> Some JNull))
     \<and> (urlOf ''/api/v1/Workflow/undefined'' = None \<longrightarrow>
          entityExists urlOf srv h (get_prop workflowData ''id'') w = (False, w))
     \<and> (\<not> fst (entityExists urlOf srv h (get_prop workflowData ''id'') w) \<longrightarrow>
          import_workflow urlOf srv h (Some workflowData) t w =
            (case fst (apiRequest urlOf srv ''/api/v1/Workflow'' h POST (Some workflowData)
                         (snd (entityExists urlOf srv h (get_prop workflowData ''id'') w))) of
               Inl e \<Rightarrow> t\<lparr>errors := errors t + 1\<rparr>
             | Inr j \<Rightarrow>
                 if toStr (workflowName workflowData) = None then t\<lparr>errors := errors t + 1\<rparr>
                 else t\<lparr>created := created t + 1\<rparr>,
             snd (apiRequest urlOf srv ''/api/v1/Workflow'' h POST (Some workflowData)
                    (snd (entityExists urlOf srv h (get_prop workflowData ''id'') w))))
          \<and> updated (fst (import_workflow urlOf srv h (Some workflowData) t w)) = updated t)
     \<and> (fst (entityExists urlOf srv h (get_prop workflowData ''id'') w) \<longrightarrow>
          import_workflow urlOf srv h (Some workflowData) t w =
            (case fst (apiRequest urlOf srv ''/api/v1/Workflow/undefined'' h PUT (Some workflowData)
                         (snd (entityExists urlOf srv h (get_prop workflowData ''id'') w))) of
               Inl e \<Rightarrow> t\<lparr>errors := errors t + 1\<rparr>
             | Inr j \<Rightarrow>
                 if toStr (workflowName workflowData) = None then t\<lparr>errors := errors t + 1\<rparr>
                 else t\<lparr>updated := updated t + 1\<rparr>,
             snd (apiRequest urlOf srv ''/api/v1/Workflow/undefined'' h PUT (Some workflowData)
                    (snd (entityExists urlOf srv h (get_prop workflowData ''id'') w))))
          \<and> created (fst (import_workflow urlOf srv h (Some workflowData) t w)) = created t)
     \<and> (\<forall>fs v. workflowData = JObj fs
                 \<and> urlOf ''/api/v1/Workflow/undefined'' = Some ''/api/v1/Workflow/undefined''
                 \<and> urlOf ''/api/v1/Workflow'' = Some ''/api/v1/Workflow''
                 \<and> toStr (workflowName workflowData) \<noteq> None
                 \<and> sel id_key ''undefined'' (workflows (remote_state v)) = None \<longrightarrow>
           fst (import_workflow urlOf espo h (Some workflowData) t v) = t\<lparr>created := created t + 1\<rparr>
           \<and> workflows (remote_state (snd (import_workflow urlOf espo h (Some workflowData) t v)))
               = workflows (remote_state v) @ [(fresh_id (workflows (remote_state v)), map_of fs)]
           \<and> sel id_key ''undefined''
                (workflows (remote_state (snd (import_workflow urlOf espo h (Some workflowData) t v))))
               = None)"
proof -
  let ?E = "entityExists urlOf srv h (get_prop workflowData ''id'') w"
  have ts: "toStr_opt (get_prop workflowData ''id'') = Some ''undefined''"
    using assms(2) by simp
  have c2: "sent (snd ?E) = sent w @ [workflow_request GET p h None]
          \<and> fst ?E =
              (case fst (srv (workflow_request GET p h None) (remote_state w)) of
                 Failed e \<Rightarrow> False
               | Answered res \<Rightarrow>
                   200 \<le> res_status res \<and> res_status res < 300 \<and> res_json res \<noteq> Some JNull)"
    if "urlOf ''/api/v1/Workflow/undefined'' = Some p" for p
  proof -
    from that have u: "urlOf (''/api/v1/Workflow/'' @ ''undefined'') = Some p" by simp
    show ?thesis
      unfolding entityExists_snd [where urlOf = urlOf, OF ts u]
        entityExists_fst [where urlOf = urlOf, OF ts u]
      by (auto simp: send_sent split: reply.splits option.splits)
  qed
  have c3: "?E = (False, w)" if "urlOf ''/api/v1/Workflow/undefined'' = None"
  proof -
    from that have u: "urlOf (''/api/v1/Workflow/'' @ ''undefined'') = None" by simp
    show ?thesis using entityExists_unparsed [where urlOf = urlOf, OF ts u] .
  qed
  note U = import_workflow_unfold [OF assms(1), of urlOf srv h t w, unfolded Let_def ts option.case]
  have lg: "logged n x t = (if toStr n = None then t\<lparr>errors := errors t + 1\<rparr> else x)" for n x
    by (auto simp: logged_def)
  have c4: "import_workflow urlOf srv h (Some workflowData) t w =
            (case fst (apiRequest urlOf srv ''/api/v1/Workflow'' h POST (Some workflowData) (snd ?E)) of
               Inl e \<Rightarrow> t\<lparr>errors := errors t + 1\<rparr>
             | Inr j \<Rightarrow>
                 if toStr (workflowName workflowData) = None then t\<lparr>errors := errors t + 1\<rparr>
                 else t\<lparr>created := created t + 1\<rparr>,
             snd (apiRequest urlOf srv ''/api/v1/Workflow'' h POST (Some workflowData) (snd ?E)))
          \<and> updated (fst (import_workflow urlOf srv h (Some workflowData) t w)) = updated t"
    if "\<not> fst ?E"
    unfolding U using that by (simp add: lg split: sum.splits)
  have c5: "import_workflow urlOf srv h (Some workflowData) t w =
            (case fst (apiRequest urlOf srv ''/api/v1/Workflow/undefined'' h PUT (Some workflowData) (snd ?E)) of
               Inl e \<Rightarrow> t\<lparr>errors := errors t + 1\<rparr>
             | Inr j \<Rightarrow>
                 if toStr (workflowName workflowData) = None then t\<lparr>errors := errors t + 1\<rparr>
                 else t\<lparr>updated := updated t + 1\<rparr>,
             snd (apiRequest urlOf srv ''/api/v1/Workflow/undefined'' h PUT (Some workflowData) (snd ?E)))
          \<and> created (fst (import_workflow urlOf srv h (Some workflowData) t w)) = created t"
    if "fst ?E"
    unfolding U using that by (simp add: lg split: sum.splits)
  have c6: "fst (import_workflow urlOf espo h (Some workflowData) t v) = t\<lparr>created := created t + 1\<rparr>
           \<and> workflows (remote_state (snd (import_workflow urlOf espo h (Some workflowData) t v)))
               = workflows (remote_state v) @ [(fresh_id (workflows (remote_state v)), map_of fs)]
           \<and> sel id_key ''undefined''
                (workflows (remote_state (snd (import_workflow urlOf espo h (Some workflowData) t v))))
               = None"
    if H: "workflowData = JObj fs
                 \<and> urlOf ''/api/v1/Workflow/undefined'' = Some ''/api/v1/Workflow/undefined''
                 \<and> urlOf ''/api/v1/Workflow'' = Some ''/api/v1/Workflow''
                 \<and> toStr (workflowName workflowData) \<noteq> None
                 \<and> sel id_key ''undefined'' (workflows (remote_state v)) = None"
    for fs v
  proof -
    from H have wd: "workflowData = JObj fs"
      and u1: "urlOf ''/api/v1/Workflow/undefined'' = Some ''/api/v1/Workflow/undefined''"
      and u2: "urlOf ''/api/v1/Workflow'' = Some ''/api/v1/Workflow''"
      and nm: "toStr (workflowName (JObj fs)) \<noteq> None"
      and un: "sel id_key ''undefined'' (workflows (remote_state v)) = None" by blast+
    have m: "map_of fs ''id'' = None" using assms(2) wd by simp
    show ?thesis
      unfolding wd
      using espo_creates_idless_workflow [where urlOf = urlOf, OF m un u1 u2 nm, of h t] .
  qed
  show ?thesis
    apply (intro conjI)
    subgoal by (rule ts)
    subgoal using c2 by blast
    subgoal using c3 by blast
    subgoal using c4 by blast
    subgoal using c5 by blast
    subgoal using c6 by blast
    done
qed

theorem idless_workflow_outcome_witness:
  "fst (import_workflow as_written espo (EspoAuthorization (AuthString ''admin'' ''pw''))
          (Some (JObj [(''name'', JStr ''Notify owner'')]))
          \<lparr>created = 0, updated = 0, errors = 0\<rparr>
          (start \<lparr>reports = [], workflows = []\<rparr>))
     = \<lparr>created = 1, updated = 0, errors = 0\<rparr>
   \<and> fst (import_workflow as_written espo (EspoAuthorization (AuthString ''admin'' ''pw''))
          (Some (JObj [(''name'', JStr ''Notify owner'')]))
          \<lparr>created = 0, updated = 0, errors = 0\<rparr>
          (snd (import_workflow as_written espo (EspoAuthorization (AuthString ''admin'' ''pw''))
                  (Some (JObj [(''name'', JStr ''Notify owner'')]))
                  \<lparr>created = 0, updated = 0, errors = 0\<rparr>
                  (start \<lparr>reports = [], workflows = []\<rparr>))))
     = \<lparr>created = 1, updated = 0, errors = 0\<rparr>"
proof -
  let ?wd = "JObj [(''name'', JStr ''Notify owner'')]"
  let ?h = "EspoAuthorization (AuthString ''admin'' ''pw'')"
  let ?z = "\<lparr>created = 0, updated = 0, errors = 0\<rparr>"
  let ?w = "start \<lparr>reports = [], workflows = []\<rparr>"
  have a1: "?wd \<noteq> JNull" by simp
  have a2: "get_prop ?wd ''id'' = None" by simp
  note T = idless_workflow_outcome
    [where srv = espo and workflowData = ?wd and h = ?h and t = ?z and urlOf = as_written,
     OF a1 a2, THEN conjunct2, THEN conjunct2, THEN conjunct2, THEN conjunct2, THEN conjunct2]
  have g: "?wd = JObj [(''name'', JStr ''Notify owner'')]
           \<and> as_written ''/api/v1/Workflow/undefined'' = Some ''/api/v1/Workflow/undefined''
           \<and> as_written ''/api/v1/Workflow'' = Some ''/api/v1/Workflow''
           \<and> toStr (workflowName ?wd) \<noteq> None"
    by (simp add: as_written_def workflowName_def)
  have u0: "sel id_key ''undefined'' (workflows (remote_state ?w)) = None"
    by (simp add: sel_def start_def)
  from T g u0 have r1:
    "fst (import_workflow as_written espo ?h (Some ?wd) ?z ?w) = ?z\<lparr>created := created ?z + 1\<rparr>"
    "sel id_key ''undefined''
       (workflows (remote_state (snd (import_workflow as_written espo ?h (Some ?wd) ?z ?w)))) = None"
    by blast+
  from T g r1(2) have r2:
    "fst (import_workflow as_written espo ?h (Some ?wd) ?z
            (snd (import_workflow as_written espo ?h (Some ?wd) ?z ?w)))
       = ?z\<lparr>created := created ?z + 1\<rparr>"
    by blast
  show ?thesis
    unfolding r1(1) r2 by simp
qed

section \<open>One failing file does not stop the workflow import\<close>

lemma logged_cases:
  "logged n x t = (if toStr n = None then t\<lparr>errors := errors t + 1\<rparr> else x)"
  by (auto simp: logged_def)

lemma import_workflow_counts:
  "created (fst (import_workflow urlOf srv h content t w))
     + updated (fst (import_workflow urlOf srv h content t w))
     + errors (fst (import_workflow urlOf srv h content t w))
   = created t + updated t + errors t + 1"
proof (cases content)
  case None
  then show ?thesis by (simp add: import_workflow_def)
next
  case (Some workflowData)
  show ?thesis
  proof (cases "workflowData = JNull")
    case True
    then show ?thesis using Some by (simp add: import_workflow_def)
  next
    case False
    show ?thesis
      unfolding Some import_workflow_unfold [OF False] Let_def
      by (simp add: logged_cases split: option.splits sum.splits)
  qed
qed

lemma import_workflows_counts:
  "created (fst (import_workflows urlOf srv h files t w))
     + updated (fst (import_workflows urlOf srv h files t w))
     + errors (fst (import_workflows urlOf srv h files t w))
   = created t + updated t + errors t + length files"
proof (induction files arbitrary: t w)
  case Nil
  then show ?case by simp
next
  case (Cons f files)
  obtain name content where f: "f = (name, content)" by (cases f)
  obtain t1 w1 where s: "import_workflow urlOf srv h content t w = (t1, w1)" by fastforce
  show ?case
    using Cons.IH [of t1 w1] import_workflow_counts [of urlOf srv h content t w] f s by simp
qed

lemma import_workflows_append:
  "import_workflows urlOf srv h (xs @ ys) t w =
     (case import_workflows urlOf srv h xs t w of (t1, w1) \<Rightarrow> import_workflows urlOf srv h ys t1 w1)"
  by (induction xs arbitrary: t w) (auto split: prod.splits)

lemma import_reports_stops:
  "fst (upsert srv report w) = Inl e \<Longrightarrow>
     import_reports srv ((file, Some report) # files) printed w = ((Some e, printed), snd (upsert srv report w))"
  by (cases "upsert srv report w") simp

text \<open>
  C2, as stated, fails on the code: in the report import the second of three reports has
  an empty name, the run ends there with the error, and the third report is never
  looked up. There are no tallies.
\<close>

theorem report_import_stops_at_first_failure:
  "fst (main_reports espo
          (Some [(''a.json'', Some (JObj [(''name'', JStr ''Sales Q1'')])),
                 (''b.json'', Some (JObj [(''name'', JStr '''')])),
                 (''c.json'', Some (JObj [(''name'', JStr ''Leads by source'')]))])
          (start \<lparr>reports = [], workflows = []\<rparr>))
     = (Some MissingName, [Created])
   \<and> map (\<lambda>r. (rq_method r, rq_path r))
        (sent (snd (main_reports espo
          (Some [(''a.json'', Some (JObj [(''name'', JStr ''Sales Q1'')])),
                 (''b.json'', Some (JObj [(''name'', JStr '''')])),
                 (''c.json'', Some (JObj [(''name'', JStr ''Leads by source'')]))])
          (start \<lparr>reports = [], workflows = []\<rparr>))))
     = [(GET, ''/api/v1/Report?maxSize=1&filters[name]=Sales%20Q1''),
        (POST, ''/api/v1/Report'')]"
  by (simp add: client_defs espo_defs js_defs)

text \<open>
  C2 (amended): in the workflow import every file is counted exactly once as created,
  updated or failed, whatever goes wrong with it, and the files after it are processed
  from where it left off. A file that cannot be read or parsed, or holds \<^verbatim>\<open>null\<close>, is
  counted as failed; so is a file whose update or create request fails, with an error of
  the remote, of the transport or of the URL parser; and so is a file whose request
  succeeded but whose name the log line cannot print. When the arguments are parsed, the
  directory is listed and has files, credentials are given and the login request
  succeeds, the run ends with a summary whose three counts add up to the number of
  files. It calls \<^verbatim>\<open>process.exit(1)\<close> only when a credential is missing or the login
  request fails, and it ends on an exception that nothing catches only when parsing the
  arguments or listing the directory throws. The report import has no such handling: the
  first report that fails ends the run with that error, and the reports after it are
  not touched.
\<close>

theorem workflow_import_isolates_failures:
  fixes srv :: "'s remote"
  shows
    "created (fst (import_workflows urlOf srv h files t w))
       + updated (fst (import_workflows urlOf srv h files t w))
       + errors (fst (import_workflows urlOf srv h files t w))
     = created t + updated t + errors t + length files
     \<and> import_workflows urlOf srv h (files @ later) t w =
         (case import_workflows urlOf srv h files t w of
            (t1, w1) \<Rightarrow> import_workflows urlOf srv h later t1 w1)
     \<and> (\<forall>a entries u p tok.
           parsed = Some a \<and> inputDir = Entries entries \<and> workflow_files entries \<noteq> [] \<and>
           args_user a = Some u \<and> u \<noteq> [] \<and> args_password a = Some p \<and> p \<noteq> [] \<and>
           fst (authenticate urlOf srv u p w) = Inr tok \<longrightarrow>
           (\<exists>t'. fst (main_workflows urlOf srv parsed inputDir w) = Summary t'
                \<and> created t' + updated t' + errors t' = length (workflow_files entries)))
     \<and> (fst (main_workflows urlOf srv parsed inputDir w) = Exit1 \<longrightarrow>
           (\<exists>a. parsed = Some a \<and>
              (args_user a = None \<or> args_user a = Some [] \<or>
               args_password a = None \<or> args_password a = Some [] \<or>
               (\<exists>u p e. args_user a = Some u \<and> args_password a = Some p
                        \<and> fst (authenticate urlOf srv u p w) = Inl e))))
     \<and> (fst (main_workflows urlOf srv parsed inputDir w) = Uncaught \<longleftrightarrow>
           parsed = None \<or> inputDir = Unlistable)
     \<and> (content = None \<or> content = Some JNull \<longrightarrow>
           import_workflow urlOf srv h content t w = (t\<lparr>errors := errors t + 1\<rparr>, w))
     \<and> (\<forall>workflowData. content = Some workflowData \<and> workflowData \<noteq> JNull \<longrightarrow>
           fst (import_workflow urlOf srv h content t w) =
             (if fst (entityExists urlOf srv h (get_prop workflowData ''id'') w) then
                (case toStr_opt (get_prop workflowData ''id'') of
                   None \<Rightarrow> t\<lparr>errors := errors t + 1\<rparr>
                 | Some i \<Rightarrow>
                     (case fst (apiRequest urlOf srv (''/api/v1/Workflow/'' @ i) h PUT
                                  (Some workflowData)
                                  (snd (entityExists urlOf srv h (get_prop workflowData ''id'') w))) of
                        Inl e \<Rightarrow> t\<lparr>errors := errors t + 1\<rparr>
                      | Inr j \<Rightarrow>
                          if toStr (workflowName workflowData) = None
                          then t\<lparr>errors := errors t + 1\<rparr>
                          else t\<lparr>updated := updated t + 1\<rparr>))
              else
                (case fst (apiRequest urlOf srv ''/api/v1/Workflow'' h POST (Some workflowData)
                             (snd (entityExists urlOf srv h (get_prop workflowData ''id'') w))) of
                   Inl e \<Rightarrow> t\<lparr>errors := errors t + 1\<rparr>
                 | Inr j \<Rightarrow>
                     if toStr (workflowName workflowData) = None
                     then t\<lparr>errors := errors t + 1\<rparr>
                     else t\<lparr>created := created t + 1\<rparr>)))
     \<and> (\<forall>e. fst (upsert srv report w) = Inl e \<longrightarrow>
           import_reports srv ((fname, Some report) # rest) printed w =
             ((Some e, printed), snd (upsert srv report w)))"
proof -
  have i1: "import_workflow urlOf srv h content t w = (t\<lparr>errors := errors t + 1\<rparr>, w)"
    if "content = None \<or> content = Some JNull"
    using that by (auto simp: import_workflow_def)
  have i2: "fst (import_workflow urlOf srv h content t w) =
             (if fst (entityExists urlOf srv h (get_prop workflowData ''id'') w) then
                (case toStr_opt (get_prop workflowData ''id'') of
                   None \<Rightarrow> t\<lparr>errors := errors t + 1\<rparr>
                 | Some i \<Rightarrow>
                     (case fst (apiRequest urlOf srv (''/api/v1/Workflow/'' @ i) h PUT
                                  (Some workflowData)
                                  (snd (entityExists urlOf srv h (get_prop workflowData ''id'') w))) of
                        Inl e \<Rightarrow> t\<lparr>errors := errors t + 1\<rparr>
                      | Inr j \<Rightarrow>
                          if toStr (workflowName workflowData) = None
                          then t\<lparr>errors := errors t + 1\<rparr>
                          else t\<lparr>updated := updated t + 1\<rparr>))
              else
                (case fst (apiRequest urlOf srv ''/api/v1/Workflow'' h POST (Some workflowData)
                             (snd (entityExists urlOf srv h (get_prop workflowData ''id'') w))) of
                   Inl e \<Rightarrow> t\<lparr>errors := errors t + 1\<rparr>
                 | Inr j \<Rightarrow>
                     if toStr (workflowName workflowData) = None
                     then t\<lparr>errors := errors t + 1\<rparr>
                     else t\<lparr>created := created t + 1\<rparr>))"
    if c: "content = Some workflowData \<and> workflowData \<noteq> JNull" for workflowData
  proof -
    from c have wd: "workflowData \<noteq> JNull" and ct: "content = Some workflowData" by simp_all
    show ?thesis
      unfolding ct import_workflow_unfold [OF wd, of urlOf srv h t w] Let_def
      by (simp add: logged_cases split: option.splits sum.splits)
  qed
  have m: "\<exists>t'. fst (main_workflows urlOf srv parsed inputDir w) = Summary t'
                \<and> created t' + updated t' + errors t' = length (workflow_files entries)"
    if H: "parsed = Some a \<and> inputDir = Entries entries \<and> workflow_files entries \<noteq> [] \<and>
           args_user a = Some u \<and> u \<noteq> [] \<and> args_password a = Some p \<and> p \<noteq> [] \<and>
           fst (authenticate urlOf srv u p w) = Inr tok" for a entries u p tok
  proof -
    obtain w1 where a: "authenticate urlOf srv u p w = (Inr tok, w1)"
      using H by (cases "authenticate urlOf srv u p w") auto
    obtain t' w2 where i: "import_workflows urlOf srv (EspoAuthorization tok) (workflow_files entries)
        \<lparr>created = 0, updated = 0, errors = 0\<rparr> w1 = (t', w2)" by fastforce
    have "fst (main_workflows urlOf srv parsed inputDir w) = Summary t'"
      using H a i by (simp add: main_workflows_def Let_def)
    moreover have "created t' + updated t' + errors t' = length (workflow_files entries)"
      using import_workflows_counts [of urlOf srv "EspoAuthorization tok" "workflow_files entries"
          "\<lparr>created = 0, updated = 0, errors = 0\<rparr>" w1] i by simp
    ultimately show ?thesis by blast
  qed
  have x: "\<exists>a. parsed = Some a \<and>
              (args_user a = None \<or> args_user a = Some [] \<or>
               args_password a = None \<or> args_password a = Some [] \<or>
               (\<exists>u p e. args_user a = Some u \<and> args_password a = Some p
                        \<and> fst (authenticate urlOf srv u p w) = Inl e))"
    if "fst (main_workflows urlOf srv parsed inputDir w) = Exit1"
    using that
    by (auto simp: main_workflows_def Let_def
        split: option.splits folder.splits if_splits prod.splits sum.splits)
  have y: "fst (main_workflows urlOf srv parsed inputDir w) = Uncaught \<longleftrightarrow>
           parsed = None \<or> inputDir = Unlistable"
    by (auto simp: main_workflows_def Let_def
        split: option.splits folder.splits if_splits prod.splits sum.splits)
  show ?thesis
    apply (intro conjI)
    subgoal by (rule import_workflows_counts)
    subgoal by (rule import_workflows_append)
    subgoal using m by blast
    subgoal using x by blast
    subgoal by (rule y)
    subgoal using i1 by blast
    subgoal using i2 by blast
    subgoal using import_reports_stops [of srv report w _ fname rest printed] by blast
    done
qed

theorem workflow_import_isolates_failures_witness:
  "fst (main_workflows as_written espo
          (Some \<lparr>args_user = Some ''admin'', args_password = Some ''pw''\<rparr>)
          (Entries [(''w1.json'', Some (JObj [(''id'', JStr ''w1''), (''name'', JStr ''First'')])),
                    (''w2.json'', None),
                    (''w3.json'', Some (JObj [(''id'', JStr ''w3''), (''name'', JStr ''Third'')]))])
          (start \<lparr>reports = [], workflows = []\<rparr>))
     = Summary \<lparr>created = 2, updated = 0, errors = 1\<rparr>"
proof -
  let ?entries = "[(''w1.json'', Some (JObj [(''id'', JStr ''w1''), (''name'', JStr ''First'')])),
                 (''w2.json'', None),
                 (''w3.json'', Some (JObj [(''id'', JStr ''w3''), (''name'', JStr ''Third'')]))]"
  let ?a = "\<lparr>args_user = Some ''admin'', args_password = Some ''pw''\<rparr>"
  let ?w = "start \<lparr>reports = [], workflows = []\<rparr>"
  have f: "workflow_files ?entries = ?entries"
    by (simp add: workflow_files_def js_defs)
  have a: "fst (authenticate as_written espo ''admin'' ''pw'' ?w) = Inr (AuthString ''admin'' ''pw'')"
    by (simp add: client_defs espo_defs js_defs)
  have "Some ?a = Some ?a \<and> Entries ?entries = Entries ?entries \<and> workflow_files ?entries \<noteq> [] \<and>
           args_user ?a = Some ''admin'' \<and> ''admin'' \<noteq> [] \<and> args_password ?a = Some ''pw'' \<and> ''pw'' \<noteq> [] \<and>
           fst (authenticate as_written espo ''admin'' ''pw'' ?w) = Inr (AuthString ''admin'' ''pw'')"
    using a unfolding f by simp
  with workflow_import_isolates_failures
      [where srv = espo and urlOf = as_written and parsed = "Some ?a"
         and inputDir = "Entries ?entries" and w = ?w,
       THEN conjunct2, THEN conjunct2, THEN conjunct1]
  obtain t' where
    "fst (main_workflows as_written espo (Some ?a) (Entries ?entries) ?w) = Summary t'"
    "created t' + updated t' + errors t' = length (workflow_files ?entries)"
    by blast
  moreover have "fst (main_workflows as_written espo (Some ?a) (Entries ?entries) ?w)
     = Summary \<lparr>created = 2, updated = 0, errors = 1\<rparr>"
    by (simp add: client_defs espo_defs js_defs)
  ultimately show ?thesis by simp
qed

section \<open>Running an import twice\<close>


subsection \<open>A second run of the same batch\<close>




















lemma plain_not_empty: "plain i \<Longrightarrow> i \<noteq> []"
  by (simp add: plain_def)

lemma unique_ids_not_empty: "unique_ids es \<Longrightarrow> [] \<notin> set (map fst es)"
  using plain_not_empty unfolding unique_ids_def by blast






























end
